theory Spec2Isabelle
  imports Complex_Main
begin

section \<open>The data layer of the appointment-scheduling client\<close>

text \<open>
  The development embeds three TypeScript modules: \<^verbatim>\<open>storageService\<close>
  (\<^verbatim>\<open>src/src/services/storage.ts\<close>, lines 1-260), \<^verbatim>\<open>statisticsService\<close>
  (the same file, lines 260-466) and \<^verbatim>\<open>notificationService\<close>
  (\<^verbatim>\<open>src/unnamed/part_004\<close>). Every \<^verbatim>\<open>async\<close> function becomes a function from the
  world before the call to its outcome (\<open>Inl\<close>: the promise rejects with that error,
  \<open>Inr\<close>: it resolves with that value) paired with the world after the call.
\<close>

subsection \<open>JavaScript values\<close>

datatype error = StorageError | SyntaxError | TypeError

text \<open>
  The values that \<^verbatim>\<open>JSON.parse\<close> can produce. Numbers are restricted to integers; no
  function below computes with a stored number, only its truthiness is read. An object is
  the list of its properties, the first binding of a name being the property's value.
  \<^verbatim>\<open>undefined\<close> is not a JSON value: where the code can meet it, the type is
  \<open>json option\<close> and \<open>None\<close> stands for \<^verbatim>\<open>undefined\<close>.
\<close>

datatype json =
    JNull
  | JBool bool
  | JNum int
  | JStr string
  | JArr "json list"
  | JObj "(string \<times> json) list"

text \<open>JavaScript's truthiness of a value (\<^verbatim>\<open>if (x)\<close>, \<^verbatim>\<open>x || y\<close>, \<^verbatim>\<open>x ? a : b\<close>).\<close>

fun truthy :: "json \<Rightarrow> bool" where
  "truthy JNull = False"
| "truthy (JBool b) = b"
| "truthy (JNum n) = (n \<noteq> 0)"
| "truthy (JStr s) = (s \<noteq> [])"
| "truthy (JArr xs) = True"
| "truthy (JObj kvs) = True"

text \<open>\<^verbatim>\<open>a || b\<close> where \<^verbatim>\<open>a\<close> may be \<^verbatim>\<open>undefined\<close>.\<close>

definition js_or :: "json option \<Rightarrow> json \<Rightarrow> json" where
  "js_or a b = (case a of None \<Rightarrow> b | Some x \<Rightarrow> if truthy x then x else b)"

text \<open>
  \<^verbatim>\<open>x.name\<close> for the property names the code reads (\<^verbatim>\<open>data\<close>, \<^verbatim>\<open>appointments\<close>,
  \<^verbatim>\<open>notifications\<close>, \<^verbatim>\<open>registeredUsers\<close>, \<^verbatim>\<open>settings\<close>; none of them is a built-in
  property of a string, an array, a number or a boolean): reading a property of
  \<^verbatim>\<open>null\<close> throws a TypeError, an object gives its property or \<^verbatim>\<open>undefined\<close>, every
  other value gives \<^verbatim>\<open>undefined\<close>.
\<close>

fun get_prop :: "json \<Rightarrow> string \<Rightarrow> error + json option" where
  "get_prop JNull name = Inl TypeError"
| "get_prop (JObj kvs) name = Inr (map_of kvs name)"
| "get_prop other name = Inr None"

text \<open>
  The spread \<^verbatim>\<open>[...x]\<close>: an array gives its elements, a string its characters, and any
  other JSON value is not iterable (TypeError).
\<close>

fun spread :: "json \<Rightarrow> error + json list" where
  "spread (JArr xs) = Inr xs"
| "spread (JStr s) = Inr (map (\<lambda>c. JStr [c]) s)"
| "spread other = Inl TypeError"

subsection \<open>Texts, and the persistent medium AsyncStorage\<close>

text \<open>
  A text (a stored string, or the snapshot string given to \<^verbatim>\<open>restoreFromBackup\<close>) is
  represented by what \<^verbatim>\<open>JSON.parse\<close> makes of it: \<open>JsonText v\<close> is a text that parses to
  \<open>v\<close>, \<open>BadText\<close> a non-empty text on which \<^verbatim>\<open>JSON.parse\<close> throws a SyntaxError, and
  \<open>EmptyText\<close> the empty string (falsy, and a SyntaxError when parsed).
  \<^verbatim>\<open>JSON.stringify v\<close> is the text \<open>JsonText v\<close>. The type \<open>'v\<close> of the values is the type
  the reading module declares: \<open>json\<close> for \<^verbatim>\<open>storageService\<close>, whose values are
  \<^verbatim>\<open>any\<close>, and the declared list type for the other two services.
\<close>

datatype 'v stored_text = EmptyText | BadText | JsonText 'v

definition JSON_parse :: "'v stored_text \<Rightarrow> error + 'v" where
  "JSON_parse t = (case t of JsonText v \<Rightarrow> Inr v | EmptyText \<Rightarrow> Inl SyntaxError | BadText \<Rightarrow> Inl SyntaxError)"

definition JSON_stringify :: "'v \<Rightarrow> 'v stored_text" where
  "JSON_stringify v = JsonText v"

text \<open>Truthiness of what \<^verbatim>\<open>AsyncStorage.getItem\<close> resolves with (a string or \<^verbatim>\<open>null\<close>).\<close>

definition text_truthy :: "'v stored_text option \<Rightarrow> bool" where
  "text_truthy stored = (case stored of None \<Rightarrow> False | Some EmptyText \<Rightarrow> False | Some t \<Rightarrow> True)"

datatype log_entry = LogError string error | LogWarn string

record 'v CacheItem =
  data :: 'v
  timestamp :: nat
  expiry :: "int option"

text \<open>
  The world: the contents of AsyncStorage (\<open>items\<close>), the outcomes of the coming
  AsyncStorage calls (\<open>faults\<close>: each call takes the head, \<open>True\<close> meaning that the call
  rejects; an empty list means that no call fails any more), the clock read by
  \<^verbatim>\<open>Date.now()\<close> in milliseconds, the console, and the module-level \<^verbatim>\<open>cache\<close> map of
  \<^verbatim>\<open>storageService\<close>. The clock does not advance inside a call.
\<close>

record 'v world =
  items :: "string \<rightharpoonup> 'v stored_text"
  faults :: "bool list"
  now :: nat
  console :: "log_entry list"
  cache :: "string \<rightharpoonup> 'v CacheItem"

definition next_fault :: "'v world \<Rightarrow> bool" where
  "next_fault w = (case faults w of [] \<Rightarrow> False | b # bs \<Rightarrow> b)"

definition consume_fault :: "'v world \<Rightarrow> 'v world" where
  "consume_fault w = w\<lparr>faults := (case faults w of [] \<Rightarrow> [] | b # bs \<Rightarrow> bs)\<rparr>"

text \<open>
  The injected collaborator: \<^verbatim>\<open>AsyncStorage.getItem\<close> resolves with the stored string or
  \<^verbatim>\<open>null\<close>, \<^verbatim>\<open>AsyncStorage.setItem\<close> replaces the string under the key; a call that
  rejects changes nothing.
\<close>

definition AsyncStorage_getItem :: "string \<Rightarrow> 'v world \<Rightarrow> (error + 'v stored_text option) \<times> 'v world" where
  "AsyncStorage_getItem key w =
     (if next_fault w then (Inl StorageError, consume_fault w)
      else (Inr (items w key), consume_fault w))"

definition AsyncStorage_setItem :: "string \<Rightarrow> 'v stored_text \<Rightarrow> 'v world \<Rightarrow> (error + unit) \<times> 'v world" where
  "AsyncStorage_setItem key txt w =
     (if next_fault w then (Inl StorageError, consume_fault w)
      else (Inr (), (consume_fault w)\<lparr>items := (items w)(key \<mapsto> txt)\<rparr>))"

definition console_error :: "string \<Rightarrow> error \<Rightarrow> 'v world \<Rightarrow> 'v world" where
  "console_error msg e w = w\<lparr>console := console w @ [LogError msg e]\<rparr>"

definition console_warn :: "string \<Rightarrow> 'v world \<Rightarrow> 'v world" where
  "console_warn msg w = w\<lparr>console := console w @ [LogWarn msg]\<rparr>"

subsection \<open>storageService: the key-value store with its cache\<close>

definition STORAGE_KEYS_APPOINTMENTS :: string where
  "STORAGE_KEYS_APPOINTMENTS = ''@MedicalApp:appointments''"

definition STORAGE_KEYS_NOTIFICATIONS :: string where
  "STORAGE_KEYS_NOTIFICATIONS = ''@MedicalApp:notifications''"

definition STORAGE_KEYS_REGISTERED_USERS :: string where
  "STORAGE_KEYS_REGISTERED_USERS = ''@MedicalApp:registeredUsers''"

definition STORAGE_KEYS_APP_SETTINGS :: string where
  "STORAGE_KEYS_APP_SETTINGS = ''@MedicalApp:settings''"

text \<open>
  \<^verbatim>\<open>expiryMinutes ? Date.now() + (expiryMinutes * 60 * 1000) : undefined\<close>: an absent or
  zero \<^verbatim>\<open>expiryMinutes\<close> is falsy and gives no expiry.
\<close>

definition expiry_of :: "int option \<Rightarrow> nat \<Rightarrow> int option" where
  "expiry_of expiryMinutes t =
     (case expiryMinutes of
        None \<Rightarrow> None
      | Some m \<Rightarrow> if m \<noteq> 0 then Some (int t + m * 60 * 1000) else None)"

text \<open>
  \<^verbatim>\<open>setItem\<close> (storage.ts 66-81): serialise, write, then set the cache entry; a failed
  write is logged and thrown again, the cache untouched.
\<close>

definition setItem :: "string \<Rightarrow> 'v \<Rightarrow> int option \<Rightarrow> 'v world \<Rightarrow> (error + unit) \<times> 'v world" where
  "setItem key val expiryMinutes w =
     (let serializedValue = JSON_stringify val in
      case AsyncStorage_setItem key serializedValue w of
        (Inl e, w1) \<Rightarrow> (Inl e, console_error (''Erro ao salvar '' @ key @ '':'') e w1)
      | (Inr u, w1) \<Rightarrow>
          (let cacheItem = \<lparr>data = val, timestamp = now w1, expiry = expiry_of expiryMinutes (now w1)\<rparr>
           in (Inr (), w1\<lparr>cache := (cache w1)(key \<mapsto> cacheItem)\<rparr>)))"

text \<open>\<^verbatim>\<open>!cached.expiry || cached.expiry > Date.now()\<close>: an expiry of 0 is falsy.\<close>

definition cache_valid :: "'v CacheItem \<Rightarrow> nat \<Rightarrow> bool" where
  "cache_valid cached t = (case expiry cached of None \<Rightarrow> True | Some e \<Rightarrow> e = 0 \<or> e > int t)"

text \<open>
  \<^verbatim>\<open>getItem\<close> (storage.ts 90-114). \<open>getItem_storage\<close> is the part after the cache check
  (lines 100-113): the read of AsyncStorage, the parse, the repopulation of the cache, and
  the \<^verbatim>\<open>catch\<close> that logs and returns \<^verbatim>\<open>defaultValue || null\<close>.
\<close>

definition getItem_storage :: "string \<Rightarrow> json option \<Rightarrow> json world \<Rightarrow> (error + json) \<times> json world" where
  "getItem_storage key defaultValue w =
     (case AsyncStorage_getItem key w of
        (Inl e, w1) \<Rightarrow> (Inr (js_or defaultValue JNull), console_error (''Erro ao carregar '' @ key @ '':'') e w1)
      | (Inr stored, w1) \<Rightarrow>
          (case stored of
             None \<Rightarrow> (Inr (js_or defaultValue JNull), w1)
           | Some t \<Rightarrow>
               if text_truthy stored then
                 (case JSON_parse t of
                    Inl e \<Rightarrow> (Inr (js_or defaultValue JNull), console_error (''Erro ao carregar '' @ key @ '':'') e w1)
                  | Inr parsed \<Rightarrow>
                      (Inr parsed, w1\<lparr>cache := (cache w1)(key \<mapsto> \<lparr>data = parsed, timestamp = now w1, expiry = None\<rparr>)\<rparr>))
               else (Inr (js_or defaultValue JNull), w1)))"

definition getItem :: "string \<Rightarrow> json option \<Rightarrow> json world \<Rightarrow> (error + json) \<times> json world" where
  "getItem key defaultValue w =
     (case cache w key of
        Some cached \<Rightarrow>
          if cache_valid cached (now w) then (Inr (data cached), w)
          else getItem_storage key defaultValue (w\<lparr>cache := (cache w)(key := None)\<rparr>)
      | None \<Rightarrow> getItem_storage key defaultValue w)"

text \<open>
  The repository wrappers (storage.ts 147-152 and 173-178). \<^verbatim>\<open>getAppointments\<close> passes
  the default \<^verbatim>\<open>[]\<close>; \<^verbatim>\<open>addAppointment\<close> has no \<^verbatim>\<open>try\<close>: what \<^verbatim>\<open>saveAppointments\<close>
  throws, and the TypeError of spreading a value that is not iterable, reach the caller.
\<close>

definition getAppointments :: "json world \<Rightarrow> (error + json) \<times> json world" where
  "getAppointments w = getItem STORAGE_KEYS_APPOINTMENTS (Some (JArr [])) w"

definition saveAppointments :: "json \<Rightarrow> json world \<Rightarrow> (error + unit) \<times> json world" where
  "saveAppointments appointments w = setItem STORAGE_KEYS_APPOINTMENTS appointments None w"

definition addAppointment :: "json \<Rightarrow> json world \<Rightarrow> (error + unit) \<times> json world" where
  "addAppointment appointment w =
     (case getAppointments w of
        (Inl e, w1) \<Rightarrow> (Inl e, w1)
      | (Inr appointments, w1) \<Rightarrow>
          (case spread appointments of
             Inl e \<Rightarrow> (Inl e, w1)
           | Inr xs \<Rightarrow> saveAppointments (JArr (xs @ [appointment])) w1))"

text \<open>
  \<^verbatim>\<open>storageService.getNotifications\<close>, named \<open>getNotifications_storage\<close> here since
  \<^verbatim>\<open>notificationService\<close> has a function of the same name.
\<close>

definition getNotifications_storage :: "json world \<Rightarrow> (error + json) \<times> json world" where
  "getNotifications_storage w = getItem STORAGE_KEYS_NOTIFICATIONS (Some (JArr [])) w"

definition saveNotifications :: "json \<Rightarrow> json world \<Rightarrow> (error + unit) \<times> json world" where
  "saveNotifications notifications w = setItem STORAGE_KEYS_NOTIFICATIONS notifications None w"

definition addNotification :: "json \<Rightarrow> json world \<Rightarrow> (error + unit) \<times> json world" where
  "addNotification notification w =
     (case getNotifications_storage w of
        (Inl e, w1) \<Rightarrow> (Inl e, w1)
      | (Inr notifications, w1) \<Rightarrow>
          (case spread notifications of
             Inl e \<Rightarrow> (Inl e, w1)
           | Inr xs \<Rightarrow> saveNotifications (JArr (xs @ [notification])) w1))"

text \<open>
  \<^verbatim>\<open>restoreFromBackup\<close> (storage.ts 205-218). \<open>restoreFromBackup_try\<close> is the body of
  the \<^verbatim>\<open>try\<close>: parse, test \<^verbatim>\<open>backup.data\<close>, then four \<^verbatim>\<open>setItem\<close> calls in a row, each
  awaited before the next, the first rejection ending the body. The \<^verbatim>\<open>catch\<close> logs and
  throws the error again.
\<close>

definition restoreFromBackup_try :: "json stored_text \<Rightarrow> json world \<Rightarrow> (error + unit) \<times> json world" where
  "restoreFromBackup_try backupString w =
     (case JSON_parse backupString of
        Inl e \<Rightarrow> (Inl e, w)
      | Inr backup \<Rightarrow>
          (case get_prop backup ''data'' of
             Inl e \<Rightarrow> (Inl e, w)
           | Inr None \<Rightarrow> (Inr (), w)
           | Inr (Some backup_data) \<Rightarrow>
               if truthy backup_data then
                 (case get_prop backup_data ''appointments'' of
                    Inl e \<Rightarrow> (Inl e, w)
                  | Inr appointments \<Rightarrow>
                 (case setItem STORAGE_KEYS_APPOINTMENTS (js_or appointments (JArr [])) None w of
                    (Inl e, w1) \<Rightarrow> (Inl e, w1)
                  | (Inr u1, w1) \<Rightarrow>
                 (case get_prop backup_data ''notifications'' of
                    Inl e \<Rightarrow> (Inl e, w1)
                  | Inr notifications \<Rightarrow>
                 (case setItem STORAGE_KEYS_NOTIFICATIONS (js_or notifications (JArr [])) None w1 of
                    (Inl e, w2) \<Rightarrow> (Inl e, w2)
                  | (Inr u2, w2) \<Rightarrow>
                 (case get_prop backup_data ''registeredUsers'' of
                    Inl e \<Rightarrow> (Inl e, w2)
                  | Inr registeredUsers \<Rightarrow>
                 (case setItem STORAGE_KEYS_REGISTERED_USERS (js_or registeredUsers (JArr [])) None w2 of
                    (Inl e, w3) \<Rightarrow> (Inl e, w3)
                  | (Inr u3, w3) \<Rightarrow>
                 (case get_prop backup_data ''settings'' of
                    Inl e \<Rightarrow> (Inl e, w3)
                  | Inr settings \<Rightarrow>
                     setItem STORAGE_KEYS_APP_SETTINGS (js_or settings (JObj [])) None w3)))))))
               else (Inr (), w)))"

definition restoreFromBackup :: "json stored_text \<Rightarrow> json world \<Rightarrow> (error + unit) \<times> json world" where
  "restoreFromBackup backupString w =
     (case restoreFromBackup_try backupString w of
        (Inl e, w1) \<Rightarrow> (Inl e, console_error ''Erro ao restaurar backup:'' e w1)
      | (Inr u, w1) \<Rightarrow> (Inr (), w1))"

text \<open>
  A section of the backup is what is stored and cached under its key; two worlds agree on
  the four sections when they agree there.
\<close>

definition section_of :: "'v world \<Rightarrow> string \<Rightarrow> 'v stored_text option \<times> 'v CacheItem option" where
  "section_of w key = (items w key, cache w key)"

definition four_sections :: "'v world \<Rightarrow> ('v stored_text option \<times> 'v CacheItem option) list" where
  "four_sections w =
     map (section_of w)
       [STORAGE_KEYS_APPOINTMENTS, STORAGE_KEYS_NOTIFICATIONS,
        STORAGE_KEYS_REGISTERED_USERS, STORAGE_KEYS_APP_SETTINGS]"

text \<open>What \<^verbatim>\<open>setItem(key, v)\<close> without a TTL leaves under \<open>key\<close> at time \<open>t\<close>.\<close>

definition replaced_by :: "'v \<Rightarrow> nat \<Rightarrow> 'v stored_text option \<times> 'v CacheItem option" where
  "replaced_by v t = (Some (JsonText v), Some \<lparr>data = v, timestamp = t, expiry = None\<rparr>)"

subsection \<open>notificationService\<close>

datatype NotificationType =
  appointment_confirmed | appointment_cancelled | appointment_reminder | general

text \<open>
  \<^verbatim>\<open>Omit<Notification, 'id' | 'createdAt' | 'read'>\<close> is the record that \<open>Notification\<close>
  extends. \<^verbatim>\<open>createdAt\<close> holds the instant (milliseconds since the epoch) that the ISO
  string written by \<^verbatim>\<open>toISOString()\<close> denotes and that \<^verbatim>\<open>new Date(createdAt).getTime()\<close>
  reads back.
\<close>

record NotificationInput =
  userId :: string
  title :: string
  message :: string
  type_n :: NotificationType
  appointmentId :: "string option"

record Notification = NotificationInput +
  id_n :: string
  read :: bool
  createdAt :: nat

definition STORAGE_KEY :: string where
  "STORAGE_KEY = ''@MedicalApp:notifications''"

text \<open>\<^verbatim>\<open>Date.now().toString()\<close>: the decimal digits of a natural number.\<close>

definition digit_char :: "nat \<Rightarrow> char" where
  "digit_char d = ''0123456789'' ! d"

fun toString_nat :: "nat \<Rightarrow> string" where
  "toString_nat n = (if n < 10 then [digit_char n] else toString_nat (n div 10) @ [digit_char (n mod 10)])"

declare toString_nat.simps [simp del]

text \<open>
  The two lines every function of the service (and of \<^verbatim>\<open>statisticsService\<close>) starts
  with: \<^verbatim>\<open>stored = await AsyncStorage.getItem(key)\<close> and
  \<^verbatim>\<open>stored ? JSON.parse(stored) : []\<close>. Both can throw.
\<close>

definition read_list :: "string \<Rightarrow> 'a list world \<Rightarrow> (error + 'a list) \<times> 'a list world" where
  "read_list key w =
     (case AsyncStorage_getItem key w of
        (Inl e, w1) \<Rightarrow> (Inl e, w1)
      | (Inr stored, w1) \<Rightarrow>
          (case stored of
             None \<Rightarrow> (Inr [], w1)
           | Some t \<Rightarrow>
               if text_truthy stored then
                 (case JSON_parse t of Inl e \<Rightarrow> (Inl e, w1) | Inr parsed \<Rightarrow> (Inr parsed, w1))
               else (Inr [], w1)))"

text \<open>
  \<^verbatim>\<open>getNotifications\<close> (part_004 53-67). \<^verbatim>\<open>Array.prototype.sort\<close> is stable; the
  comparator orders by \<^verbatim>\<open>createdAt\<close>, latest first.
\<close>

definition getNotifications :: "string \<Rightarrow> Notification list world \<Rightarrow> (error + Notification list) \<times> Notification list world" where
  "getNotifications uid w =
     (case read_list STORAGE_KEY w of
        (Inl e, w1) \<Rightarrow> (Inr [], console_error ''Erro ao carregar notificacoes:'' e w1)
      | (Inr allNotifications, w1) \<Rightarrow>
          (Inr (sort_key (\<lambda>n. - int (createdAt n)) (filter (\<lambda>n. userId n = uid) allNotifications)), w1))"

text \<open>
  The four mutations (part_004 73-149). Each \<open>_try\<close> function is the body of the
  \<^verbatim>\<open>try\<close>; the \<^verbatim>\<open>catch\<close> of each logs the error and returns.
\<close>

definition createNotification_try :: "NotificationInput \<Rightarrow> Notification list world \<Rightarrow> (error + unit) \<times> Notification list world" where
  "createNotification_try notification w =
     (case read_list STORAGE_KEY w of
        (Inl e, w1) \<Rightarrow> (Inl e, w1)
      | (Inr allNotifications, w1) \<Rightarrow>
          (let newNotification =
                 \<lparr>userId = userId notification, title = title notification,
                  message = message notification, type_n = type_n notification,
                  appointmentId = appointmentId notification,
                  id_n = toString_nat (now w1), read = False, createdAt = now w1\<rparr>
           in AsyncStorage_setItem STORAGE_KEY (JSON_stringify (allNotifications @ [newNotification])) w1))"

definition createNotification :: "NotificationInput \<Rightarrow> Notification list world \<Rightarrow> (error + unit) \<times> Notification list world" where
  "createNotification notification w =
     (case createNotification_try notification w of
        (Inl e, w1) \<Rightarrow> (Inr (), console_error ''Erro ao criar notificacao:'' e w1)
      | (Inr u, w1) \<Rightarrow> (Inr (), w1))"

definition markAsRead_try :: "string \<Rightarrow> Notification list world \<Rightarrow> (error + unit) \<times> Notification list world" where
  "markAsRead_try notificationId w =
     (case read_list STORAGE_KEY w of
        (Inl e, w1) \<Rightarrow> (Inl e, w1)
      | (Inr allNotifications, w1) \<Rightarrow>
          (let updatedNotifications =
                 map (\<lambda>n. if id_n n = notificationId then n\<lparr>read := True\<rparr> else n) allNotifications
           in AsyncStorage_setItem STORAGE_KEY (JSON_stringify updatedNotifications) w1))"

definition markAsRead :: "string \<Rightarrow> Notification list world \<Rightarrow> (error + unit) \<times> Notification list world" where
  "markAsRead notificationId w =
     (case markAsRead_try notificationId w of
        (Inl e, w1) \<Rightarrow> (Inr (), console_error ''Erro ao marcar notificacao como lida:'' e w1)
      | (Inr u, w1) \<Rightarrow> (Inr (), w1))"

definition markAllAsRead_try :: "string \<Rightarrow> Notification list world \<Rightarrow> (error + unit) \<times> Notification list world" where
  "markAllAsRead_try uid w =
     (case read_list STORAGE_KEY w of
        (Inl e, w1) \<Rightarrow> (Inl e, w1)
      | (Inr allNotifications, w1) \<Rightarrow>
          (let updatedNotifications =
                 map (\<lambda>n. if userId n = uid then n\<lparr>read := True\<rparr> else n) allNotifications
           in AsyncStorage_setItem STORAGE_KEY (JSON_stringify updatedNotifications) w1))"

definition markAllAsRead :: "string \<Rightarrow> Notification list world \<Rightarrow> (error + unit) \<times> Notification list world" where
  "markAllAsRead uid w =
     (case markAllAsRead_try uid w of
        (Inl e, w1) \<Rightarrow> (Inr (), console_error ''Erro ao marcar todas as notificacoes como lidas:'' e w1)
      | (Inr u, w1) \<Rightarrow> (Inr (), w1))"

definition deleteNotification_try :: "string \<Rightarrow> Notification list world \<Rightarrow> (error + unit) \<times> Notification list world" where
  "deleteNotification_try notificationId w =
     (case read_list STORAGE_KEY w of
        (Inl e, w1) \<Rightarrow> (Inl e, w1)
      | (Inr allNotifications, w1) \<Rightarrow>
          (let filteredNotifications = filter (\<lambda>n. id_n n \<noteq> notificationId) allNotifications
           in AsyncStorage_setItem STORAGE_KEY (JSON_stringify filteredNotifications) w1))"

definition deleteNotification :: "string \<Rightarrow> Notification list world \<Rightarrow> (error + unit) \<times> Notification list world" where
  "deleteNotification notificationId w =
     (case deleteNotification_try notificationId w of
        (Inl e, w1) \<Rightarrow> (Inr (), console_error ''Erro ao deletar notificacao:'' e w1)
      | (Inr u, w1) \<Rightarrow> (Inr (), w1))"

text \<open>\<^verbatim>\<open>getUnreadCount\<close> (part_004 156-164).\<close>

definition getUnreadCount :: "string \<Rightarrow> Notification list world \<Rightarrow> (error + nat) \<times> Notification list world" where
  "getUnreadCount uid w =
     (case getNotifications uid w of
        (Inl e, w1) \<Rightarrow> (Inr 0, console_error ''Erro ao contar notificacoes nao lidas:'' e w1)
      | (Inr notifications, w1) \<Rightarrow> (Inr (length (filter (\<lambda>n. \<not> read n) notifications)), w1))"

text \<open>
  The notifications that are stored: the list the stored text parses to, and the empty
  list when nothing (or the empty string) is stored. A text that does not parse holds no
  list.
\<close>

definition stored_notifications :: "Notification list world \<Rightarrow> Notification list option" where
  "stored_notifications w =
     (case items w STORAGE_KEY of
        None \<Rightarrow> Some []
      | Some EmptyText \<Rightarrow> Some []
      | Some BadText \<Rightarrow> None
      | Some (JsonText ns) \<Rightarrow> Some ns)"

subsection \<open>statisticsService\<close>

datatype AppointmentStatus = Pending | Confirmed | Cancelled

text \<open>
  The interface \<^verbatim>\<open>Appointment\<close> (storage.ts 289-299). \<^verbatim>\<open>date\<close> is the one field the code
  guards with a \<^verbatim>\<open>try\<close>: it is \<open>Some s\<close> for a string \<open>s\<close> and \<open>None\<close> when the parsed
  record holds no string there, where \<^verbatim>\<open>appointment.date.split\<close> throws a TypeError.
\<close>

record Appointment =
  id_a :: string
  patientId :: string
  patientName :: string
  doctorId :: string
  doctorName :: string
  date :: "string option"
  time :: string
  specialty :: string
  status :: AppointmentStatus

text \<open>
  A JavaScript number as far as the percentages need it: a finite binary64 value (held as
  the rational it denotes), an infinity or NaN. The sign of zero is not kept.
\<close>

datatype number = Num rat | PosInfinity | NegInfinity | NaN

text \<open>
  IEEE 754 binary64, round to nearest, ties to even, which is how JavaScript rounds the
  exact result of every arithmetic operation. \<open>bit_length n\<close> is the number of binary
  digits of \<open>n\<close>; \<open>binary_exponent x\<close> is, for a positive \<open>x\<close>, the \<open>e\<close> with
  \<open>2^e \<le> x < 2^(e + 1)\<close>; a binary64 value has 53 significant bits, so the spacing of
  the values around \<open>x\<close> is \<open>2^(e - 52)\<close>, and \<open>2^(-1074)\<close> below the smallest normal
  value \<open>2^(-1022)\<close>; a magnitude that rounds to \<open>2^1024\<close> or more is an infinity.
\<close>

fun bit_length :: "nat \<Rightarrow> nat" where
  "bit_length n = (if n = 0 then 0 else Suc (bit_length (n div 2)))"

declare bit_length.simps [simp del]

definition binary_exponent :: "rat \<Rightarrow> int" where
  "binary_exponent x =
     (if 1 \<le> x then int (bit_length (nat \<lfloor>x\<rfloor>)) - 1
      else (let b = int (bit_length (nat \<lfloor>1 / x\<rfloor>))
            in if 2 powi (1 - b) \<le> x then 1 - b else - b))"

definition round_half_even :: "rat \<Rightarrow> int" where
  "round_half_even y =
     (let f = \<lfloor>y\<rfloor>; r = y - of_int f
      in if r < 1 / 2 then f else if 1 / 2 < r then f + 1 else if even f then f else f + 1)"

definition round_magnitude :: "rat \<Rightarrow> rat" where
  "round_magnitude x =
     (let e = max (binary_exponent x) (- 1022);
          ulp = 2 powi (e - 52)
      in of_int (round_half_even (x / ulp)) * ulp)"

definition to_number :: "rat \<Rightarrow> number" where
  "to_number x =
     (let r = (if x = 0 then 0 else if 0 < x then round_magnitude x else - round_magnitude (- x))
      in if 2 powi 1024 \<le> r then PosInfinity
         else if r \<le> - (2 powi 1024) then NegInfinity
         else Num r)"

text \<open>
  \<open>js_divide\<close> is \<^verbatim>\<open>a / b\<close> for two array lengths (integers below \<open>2^32\<close>, which
  binary64 holds exactly): \<^verbatim>\<open>0 / 0\<close> is NaN, \<^verbatim>\<open>a / 0\<close> is Infinity for a positive \<open>a\<close>,
  and every other quotient is the exact one rounded to binary64. \<open>times_100\<close> is
  \<^verbatim>\<open>x * 100\<close>, the exact product rounded again.
\<close>

definition js_divide :: "nat \<Rightarrow> nat \<Rightarrow> number" where
  "js_divide a b =
     (if b = 0 then (if a = 0 then NaN else PosInfinity)
      else to_number (rat_of_nat a / rat_of_nat b))"

fun times_100 :: "number \<Rightarrow> number" where
  "times_100 (Num x) = to_number (x * 100)"
| "times_100 PosInfinity = PosInfinity"
| "times_100 NegInfinity = NegInfinity"
| "times_100 NaN = NaN"

record StatusPercentages =
  confirmed :: number
  pending :: number
  cancelled :: number

record Statistics =
  totalAppointments :: nat
  confirmedAppointments :: nat
  pendingAppointments :: nat
  cancelledAppointments :: nat
  totalPatients :: nat
  totalDoctors :: nat
  appointmentsByMonth :: "string \<rightharpoonup> nat"
  statusPercentages :: StatusPercentages

text \<open>\<^verbatim>\<open>s.split(c)\<close> for a one-character separator: never empty, one more part than separators.\<close>

fun split_on :: "char \<Rightarrow> string \<Rightarrow> string list" where
  "split_on c [] = [[]]"
| "split_on c (x # xs) =
     (if x = c then [] # split_on c xs
      else (case split_on c xs of [] \<Rightarrow> [[x]] | p # ps \<Rightarrow> (x # p) # ps))"

text \<open>
  The destructuring \<^verbatim>\<open>[day, month, year] = parts\<close> reads the elements 0, 1 and 2, a
  missing one being \<^verbatim>\<open>undefined\<close>; a template literal renders \<^verbatim>\<open>undefined\<close> as the text
  \<^verbatim>\<open>undefined\<close>.
\<close>

definition element :: "string list \<Rightarrow> nat \<Rightarrow> string option" where
  "element parts i = (if i < length parts then Some (parts ! i) else None)"

definition template :: "string option \<Rightarrow> string" where
  "template x = (case x of None \<Rightarrow> ''undefined'' | Some s \<Rightarrow> s)"

definition monthKey :: "string \<Rightarrow> string" where
  "monthKey d =
     (let parts = split_on CHR ''/'' d;
          month = element parts 1;
          year = element parts 2
      in template month @ ''/'' @ template year)"

text \<open>
  \<^verbatim>\<open>h[k] = (h[k] || 0) + 1\<close> on the object \<^verbatim>\<open>appointmentsByMonth\<close>. Every key is a
  month key, which contains a slash and so is never the name of a property the object
  inherits: \<^verbatim>\<open>h[k]\<close> is the count under \<open>k\<close> or \<^verbatim>\<open>undefined\<close>.
\<close>

definition increment :: "(string \<rightharpoonup> nat) \<Rightarrow> string \<Rightarrow> (string \<rightharpoonup> nat)" where
  "increment h k = h(k \<mapsto> (case h k of None \<Rightarrow> 0 | Some c \<Rightarrow> c) + 1)"

text \<open>
  One turn of the loop of storage.ts 359-367: the \<^verbatim>\<open>try\<close> splits the date and counts the
  record under its month key; the \<^verbatim>\<open>catch\<close> warns and goes on to the next record.
\<close>

definition month_step :: "Appointment \<Rightarrow> (string \<rightharpoonup> nat) \<times> 'v world \<Rightarrow> (string \<rightharpoonup> nat) \<times> 'v world" where
  "month_step appointment s =
     (case s of (h, w) \<Rightarrow>
        (case date appointment of
           None \<Rightarrow> (h, console_warn ''Data em formato invalido encontrada e ignorada:'' w)
         | Some d \<Rightarrow> (increment h (monthKey d), w)))"

definition percentage :: "nat \<Rightarrow> nat \<Rightarrow> number" where
  "percentage n totalCount = (if totalCount > 0 then times_100 (js_divide n totalCount) else Num 0)"

text \<open>
  \<^verbatim>\<open>getGeneralStatistics\<close> (storage.ts 330-385). \<^verbatim>\<open>registeredUsers\<close> is read and parsed,
  and never used: only a failure of its read or parse matters. The \<^verbatim>\<open>specialties\<close>
  histogram (lines 351-355) is not part of the model: its loop cannot throw, no other
  field is computed from it, and under a specialty named like a member of
  \<^verbatim>\<open>Object.prototype\<close> its entries are not counts. The console messages are written
  without their diacritics here and above.
\<close>

definition getGeneralStatistics_try :: "Appointment list world \<Rightarrow> (error + Statistics) \<times> Appointment list world" where
  "getGeneralStatistics_try w =
     (case read_list ''@MedicalApp:appointments'' w of
        (Inl e, w1) \<Rightarrow> (Inl e, w1)
      | (Inr appointments, w1) \<Rightarrow>
     (case read_list ''@MedicalApp:registeredUsers'' w1 of
        (Inl e, w2) \<Rightarrow> (Inl e, w2)
      | (Inr registeredUsers, w2) \<Rightarrow>
          (let totalCount = length appointments;
               confirmedCount = length (filter (\<lambda>a. status a = Confirmed) appointments);
               pendingCount = length (filter (\<lambda>a. status a = Pending) appointments);
               cancelledCount = length (filter (\<lambda>a. status a = Cancelled) appointments);
               uniquePatients = remdups (map patientId appointments);
               uniqueDoctors = remdups (map doctorId appointments);
               byMonth = fold month_step appointments (Map.empty, w2)
           in (Inr \<lparr>totalAppointments = totalCount,
                    confirmedAppointments = confirmedCount,
                    pendingAppointments = pendingCount,
                    cancelledAppointments = cancelledCount,
                    totalPatients = length uniquePatients,
                    totalDoctors = length uniqueDoctors,
                    appointmentsByMonth = fst byMonth,
                    statusPercentages =
                      \<lparr>confirmed = percentage confirmedCount totalCount,
                       pending = percentage pendingCount totalCount,
                       cancelled = percentage cancelledCount totalCount\<rparr>\<rparr>,
               snd byMonth))))"

definition getGeneralStatistics :: "Appointment list world \<Rightarrow> (error + Statistics) \<times> Appointment list world" where
  "getGeneralStatistics w =
     (case getGeneralStatistics_try w of
        (Inl e, w1) \<Rightarrow> (Inl e, console_error ''Erro ao calcular estatisticas gerais:'' e w1)
      | (Inr stats, w1) \<Rightarrow> (Inr stats, w1))"

text \<open>
  The appointments that are stored, read as \<open>stored_notifications\<close> reads the
  notifications, and whether the two reads of \<^verbatim>\<open>getGeneralStatistics\<close> go through: no
  fault on the next two AsyncStorage calls, and a text under the users' key that parses.
\<close>

definition stored_appointments :: "Appointment list world \<Rightarrow> Appointment list option" where
  "stored_appointments w =
     (case items w ''@MedicalApp:appointments'' of
        None \<Rightarrow> Some []
      | Some EmptyText \<Rightarrow> Some []
      | Some BadText \<Rightarrow> None
      | Some (JsonText apts) \<Rightarrow> Some apts)"

definition reads_succeed :: "Appointment list world \<Rightarrow> bool" where
  "reads_succeed w =
     (\<not> next_fault w \<and> \<not> next_fault (consume_fault w) \<and>
      items w ''@MedicalApp:registeredUsers'' \<noteq> Some BadText)"

text \<open>
  A storage failure during a mutation of \<^verbatim>\<open>notificationService\<close>: its read rejects, or
  the stored text does not parse, or its write (the call after the read) rejects.
\<close>

definition storage_failure :: "Notification list world \<Rightarrow> bool" where
  "storage_failure w =
     (next_fault w \<or> items w STORAGE_KEY = Some BadText \<or> next_fault (consume_fault w))"

text \<open>
  Whether the AsyncStorage call number \<open>i\<close> from now (0 is the next one) is rejected.
\<close>

definition fault_at :: "nat \<Rightarrow> 'v world \<Rightarrow> bool" where
  "fault_at i w = (i < length (faults w) \<and> faults w ! i)"

text \<open>
  What a snapshot text asks \<^verbatim>\<open>restoreFromBackup\<close> to write: \<open>snapshot_data\<close> is the
  truthy \<^verbatim>\<open>data\<close> of the parsed snapshot, if there is one; \<open>section_or\<close> is
  \<^verbatim>\<open>data.name || dflt\<close>; \<open>snapshot_sections\<close> lists what the four \<^verbatim>\<open>setItem\<close> calls,
  made at time \<open>t\<close>, leave under the four keys. \<open>data_field\<close> is the top-level
  \<^verbatim>\<open>data\<close> field of a parsed snapshot when it has one.
\<close>

definition snapshot_data :: "json stored_text \<Rightarrow> json option" where
  "snapshot_data s =
     (case JSON_parse s of
        Inl e \<Rightarrow> None
      | Inr backup \<Rightarrow>
          (case get_prop backup ''data'' of
             Inr (Some d) \<Rightarrow> if truthy d then Some d else None
           | _ \<Rightarrow> None))"

definition section_or :: "json \<Rightarrow> string \<Rightarrow> json \<Rightarrow> json" where
  "section_or d name dflt = (case get_prop d name of Inl e \<Rightarrow> dflt | Inr x \<Rightarrow> js_or x dflt)"

definition snapshot_sections :: "json \<Rightarrow> nat \<Rightarrow> (json stored_text option \<times> json CacheItem option) list" where
  "snapshot_sections d t =
     [replaced_by (section_or d ''appointments'' (JArr [])) t,
      replaced_by (section_or d ''notifications'' (JArr [])) t,
      replaced_by (section_or d ''registeredUsers'' (JArr [])) t,
      replaced_by (section_or d ''settings'' (JObj [])) t]"

definition data_field :: "json \<Rightarrow> json option" where
  "data_field b = (case b of JObj kvs \<Rightarrow> map_of kvs ''data'' | _ \<Rightarrow> None)"

definition data_absent_or_falsy :: "json \<Rightarrow> bool" where
  "data_absent_or_falsy b = (case data_field b of None \<Rightarrow> True | Some d \<Rightarrow> \<not> truthy d)"

text \<open>
  The exact percentage \<open>count / total * 100\<close>, 0 when the total is 0, and what it means
  for a number to be that percentage up to the rounding of binary64: a finite value whose
  distance from the exact one is at most the exact one divided by \<open>2^51\<close>.
\<close>

definition exact_percentage :: "nat \<Rightarrow> nat \<Rightarrow> rat" where
  "exact_percentage n totalCount =
     (if totalCount > 0 then rat_of_nat n / rat_of_nat totalCount * 100 else 0)"

definition within_rounding :: "number \<Rightarrow> rat \<Rightarrow> bool" where
  "within_rounding n x =
     (case n of
        Num p \<Rightarrow> \<bar>p - x\<bar> \<le> x / 2 ^ 51
      | PosInfinity \<Rightarrow> False
      | NegInfinity \<Rightarrow> False
      | NaN \<Rightarrow> False)"

definition count_status :: "AppointmentStatus \<Rightarrow> Appointment list \<Rightarrow> nat" where
  "count_status st apts = length (filter (\<lambda>a. status a = st) apts)"

subsection \<open>Worlds to evaluate on\<close>

definition fresh_world :: "'v world" where
  "fresh_world = \<lparr>items = Map.empty, faults = [], now = 1700000000000, console = [], cache = Map.empty\<rparr>"

definition example_input :: NotificationInput where
  "example_input =
     \<lparr>userId = ''u1'', title = ''Consulta Confirmada'', message = ''Sua consulta foi confirmada.'',
      type_n = appointment_confirmed, appointmentId = Some ''a1''\<rparr>"

definition example_notifications :: "Notification list" where
  "example_notifications =
     [\<lparr>userId = ''u1'', title = ''t1'', message = ''m1'', type_n = general, appointmentId = None,
       id_n = ''1699999999000'', read = False, createdAt = 1699999999000\<rparr>,
      \<lparr>userId = ''u2'', title = ''t2'', message = ''m2'', type_n = general, appointmentId = None,
       id_n = ''1699999999500'', read = False, createdAt = 1699999999500\<rparr>,
      \<lparr>userId = ''u1'', title = ''t3'', message = ''m3'', type_n = appointment_reminder, appointmentId = Some ''a7'',
       id_n = ''1699999999900'', read = True, createdAt = 1699999999900\<rparr>]"

definition notification_world :: "Notification list world" where
  "notification_world = fresh_world\<lparr>items := [STORAGE_KEY \<mapsto> JsonText example_notifications]\<rparr>"

definition only_appointments :: "Appointment list \<Rightarrow> Appointment list world" where
  "only_appointments apts = fresh_world\<lparr>items := [''@MedicalApp:appointments'' \<mapsto> JsonText apts]\<rparr>"

definition appointment_iso_date :: Appointment where
  "appointment_iso_date =
     \<lparr>id_a = ''1'', patientId = ''p1'', patientName = ''Ana'', doctorId = ''d1'',
      doctorName = ''Dr. Joao'', date = Some ''2024-01-15'', time = ''10:00'',
      specialty = ''Cardiologia'', status = Pending\<rparr>"

definition appointment_confirmed_march :: Appointment where
  "appointment_confirmed_march =
     \<lparr>id_a = ''2'', patientId = ''p2'', patientName = ''Rui'', doctorId = ''d1'',
      doctorName = ''Dr. Joao'', date = Some ''07/03/2024'', time = ''09:30'',
      specialty = ''Cardiologia'', status = Confirmed\<rparr>"

definition json_id1 :: json where
  "json_id1 = JObj [(''id'', JStr ''1''), (''status'', JStr ''pending'')]"

definition example_snapshot :: "json stored_text" where
  "example_snapshot =
     JsonText (JObj [(''timestamp'', JStr ''2024-01-15T10:00:00.000Z''),
                     (''data'', JObj [(''appointments'', JArr [json_id1]),
                                      (''notifications'', JArr [JObj [(''id'', JStr ''n1'')]]),
                                      (''registeredUsers'', JArr [JObj [(''id'', JStr ''u1'')]]),
                                      (''settings'', JObj [(''theme'', JStr ''dark'')])])])"

definition old_world :: "json world" where
  "old_world =
     fresh_world\<lparr>items := [STORAGE_KEYS_APPOINTMENTS \<mapsto> JsonText (JArr []),
                            STORAGE_KEYS_NOTIFICATIONS \<mapsto> JsonText (JArr []),
                            STORAGE_KEYS_REGISTERED_USERS \<mapsto> JsonText (JArr []),
                            STORAGE_KEYS_APP_SETTINGS \<mapsto> JsonText (JObj [(''theme'', JStr ''light'')])]\<rparr>"

definition eleven_of_twenty :: "Appointment list" where
  "eleven_of_twenty = replicate 11 appointment_confirmed_march @ replicate 9 appointment_iso_date"

section \<open>Properties\<close>

text \<open>
  C4. Round trip: when the write of \<^verbatim>\<open>setItem(k, v, ttlMinutes?)\<close> is not rejected,
  \<^verbatim>\<open>setItem\<close> resolves, and every later \<^verbatim>\<open>getItem(k)\<close> returns \<open>v\<close>, whatever the
  default, the faults and the rest of the world then are, as long as the cache entry of
  \<open>k\<close> is the one \<^verbatim>\<open>setItem\<close> left (no intervening mutation of \<open>k\<close>) and, when a TTL was
  configured (\<^verbatim>\<open>ttlMinutes\<close> given and not 0), the clock is still before
  \<open>now + ttlMinutes * 60000\<close>.
\<close>

theorem setItem_getItem_roundtrip:
  assumes "\<not> next_fault w"
    and "cache w2 k = cache (snd (setItem k v ttl w)) k"
    and "\<forall>m. ttl = Some m \<and> m \<noteq> 0 \<longrightarrow> int (now w2) < int (now w) + m * 60000"
  shows "fst (setItem k v ttl w) = Inr () \<and> fst (getItem k d w2) = Inr v"
  using assms
  by (cases ttl)
     (auto simp: setItem_def getItem_def AsyncStorage_setItem_def consume_fault_def
        JSON_stringify_def cache_valid_def expiry_of_def Let_def)

theorem setItem_getItem_roundtrip_witness:
  "\<not> next_fault (fresh_world :: json world) \<and>
   fst (setItem ''k'' (JNum 7) (Some 5) fresh_world) = Inr () \<and>
   fst (getItem ''k'' None
         ((snd (setItem ''k'' (JNum 7) (Some 5) fresh_world))\<lparr>now := 1700000299999, faults := [True]\<rparr>))
     = Inr (JNum 7)"
  using setItem_getItem_roundtrip
          [of fresh_world
              "(snd (setItem ''k'' (JNum 7) (Some 5) fresh_world))\<lparr>now := 1700000299999, faults := [True]\<rparr>"
              "''k''" "JNum 7" "Some 5" None]
  by (simp add: fresh_world_def next_fault_def)

subsection \<open>Reading a stored list\<close>

lemma items_consume_fault [simp]: "items (consume_fault w) = items w"
  by (simp add: consume_fault_def)

lemma console_consume_fault [simp]: "console (consume_fault w) = console w"
  by (simp add: consume_fault_def)

lemma now_consume_fault [simp]: "now (consume_fault w) = now w"
  by (simp add: consume_fault_def)

lemma cache_consume_fault [simp]: "cache (consume_fault w) = cache w"
  by (simp add: consume_fault_def)

lemma items_console_error [simp]: "items (console_error msg e w) = items w"
  by (simp add: console_error_def)

lemma console_console_error [simp]: "console (console_error msg e w) = console w @ [LogError msg e]"
  by (simp add: console_error_def)

lemma cache_console_error [simp]: "cache (console_error msg e w) = cache w"
  by (simp add: console_error_def)

lemma read_list_ok:
  "\<not> next_fault w \<Longrightarrow> items w key \<noteq> Some BadText \<Longrightarrow>
   read_list key w =
     (Inr (case items w key of Some (JsonText xs) \<Rightarrow> xs | _ \<Rightarrow> []), consume_fault w)"
  by (auto simp: read_list_def AsyncStorage_getItem_def text_truthy_def JSON_parse_def
           split: option.splits stored_text.splits)

lemma read_list_fault:
  "next_fault w \<Longrightarrow> read_list key w = (Inl StorageError, consume_fault w)"
  by (simp add: read_list_def AsyncStorage_getItem_def)

lemma read_list_bad:
  "\<not> next_fault w \<Longrightarrow> items w key = Some BadText \<Longrightarrow>
   read_list key w = (Inl SyntaxError, consume_fault w)"
  by (simp add: read_list_def AsyncStorage_getItem_def text_truthy_def JSON_parse_def)

lemma read_list_cases:
  "read_list key w =
     (if next_fault w then (Inl StorageError, consume_fault w)
      else if items w key = Some BadText then (Inl SyntaxError, consume_fault w)
      else (Inr (case items w key of Some (JsonText xs) \<Rightarrow> xs | _ \<Rightarrow> []), consume_fault w))"
  by (simp add: read_list_fault read_list_bad read_list_ok)

lemma write_after_read:
  "AsyncStorage_setItem key txt (consume_fault w) =
     (if next_fault (consume_fault w) then (Inl StorageError, consume_fault (consume_fault w))
      else (Inr (), (consume_fault (consume_fault w))\<lparr>items := (items w)(key \<mapsto> txt)\<rparr>))"
  by (simp add: AsyncStorage_setItem_def consume_fault_def)

lemma setItem_fault:
  "next_fault w \<Longrightarrow>
   setItem key v ttl w =
     (Inl StorageError, console_error (''Erro ao salvar '' @ key @ '':'') StorageError (consume_fault w))"
  by (simp add: setItem_def AsyncStorage_setItem_def)

subsection \<open>The unread count\<close>

lemma length_filter_insort_key:
  "length (filter P (insort_key f x xs)) = length (filter P (x # xs))"
  by (induction xs) auto

lemma length_filter_sort_key: "length (filter P (sort_key f xs)) = length (filter P xs)"
  by (induction xs) (simp_all add: length_filter_insort_key)

text \<open>
  C7. For every user id \<open>u\<close> and every stored notification list \<open>ns\<close> (the read not
  rejected), \<^verbatim>\<open>getUnreadCount(u)\<close> resolves with the number of stored notifications
  whose \<^verbatim>\<open>userId\<close> is \<open>u\<close> and whose \<^verbatim>\<open>read\<close> is false.
\<close>

theorem getUnreadCount_counts:
  assumes "\<not> next_fault w" and "stored_notifications w = Some ns"
  shows "fst (getUnreadCount u w) = Inr (length (filter (\<lambda>n. userId n = u \<and> \<not> read n) ns))"
proof -
  from assms(2) have nb: "items w STORAGE_KEY \<noteq> Some BadText"
    and ns: "(case items w STORAGE_KEY of Some (JsonText xs) \<Rightarrow> xs | _ \<Rightarrow> []) = ns"
    by (auto simp: stored_notifications_def split: option.splits stored_text.splits)
  show ?thesis
    by (simp add: getUnreadCount_def getNotifications_def read_list_ok [OF assms(1) nb] ns
          length_filter_sort_key conj_commute)
qed

theorem getUnreadCount_counts_witness:
  "\<not> next_fault notification_world \<and>
   stored_notifications notification_world = Some example_notifications \<and>
   fst (getUnreadCount ''u1'' notification_world) = Inr 1"
  using getUnreadCount_counts [of notification_world example_notifications "''u1''"]
  by (simp add: notification_world_def fresh_world_def next_fault_def stored_notifications_def
        example_notifications_def)

subsection \<open>Failures inside the notification mutations\<close>

lemma createNotification_resolves: "fst (createNotification inp w) = Inr ()"
  by (simp add: createNotification_def split: prod.splits sum.splits)

lemma markAsRead_resolves: "fst (markAsRead i w) = Inr ()"
  by (simp add: markAsRead_def split: prod.splits sum.splits)

lemma markAllAsRead_resolves: "fst (markAllAsRead u w) = Inr ()"
  by (simp add: markAllAsRead_def split: prod.splits sum.splits)

lemma deleteNotification_resolves: "fst (deleteNotification i w) = Inr ()"
  by (simp add: deleteNotification_def split: prod.splits sum.splits)

lemma createNotification_failure:
  assumes "storage_failure w"
  shows "items (snd (createNotification inp w)) = items w \<and>
         (\<exists>e. console (snd (createNotification inp w)) =
                console w @ [LogError ''Erro ao criar notificacao:'' e])"
  using assms
  by (auto simp: storage_failure_def createNotification_def createNotification_try_def
        read_list_cases write_after_read Let_def)

lemma markAsRead_failure:
  assumes "storage_failure w"
  shows "items (snd (markAsRead i w)) = items w \<and>
         (\<exists>e. console (snd (markAsRead i w)) =
                console w @ [LogError ''Erro ao marcar notificacao como lida:'' e])"
  using assms
  by (auto simp: storage_failure_def markAsRead_def markAsRead_try_def
        read_list_cases write_after_read Let_def)

lemma markAllAsRead_failure:
  assumes "storage_failure w"
  shows "items (snd (markAllAsRead u w)) = items w \<and>
         (\<exists>e. console (snd (markAllAsRead u w)) =
                console w @ [LogError ''Erro ao marcar todas as notificacoes como lidas:'' e])"
  using assms
  by (auto simp: storage_failure_def markAllAsRead_def markAllAsRead_try_def
        read_list_cases write_after_read Let_def)

lemma deleteNotification_failure:
  assumes "storage_failure w"
  shows "items (snd (deleteNotification i w)) = items w \<and>
         (\<exists>e. console (snd (deleteNotification i w)) =
                console w @ [LogError ''Erro ao deletar notificacao:'' e])"
  using assms
  by (auto simp: storage_failure_def deleteNotification_def deleteNotification_try_def
        read_list_cases write_after_read Let_def)

text \<open>
  C9. Each of \<^verbatim>\<open>createNotification\<close>, \<^verbatim>\<open>markAsRead\<close>, \<^verbatim>\<open>markAllAsRead\<close> and
  \<^verbatim>\<open>deleteNotification\<close> resolves in every world; when its read or its write fails
  (\<open>storage_failure\<close>), the contents of AsyncStorage, the stored notification list
  among them, are as before and the console holds one more entry, the error logged under
  the function's message. A write of the repository layer of \<^verbatim>\<open>storageService\<close>
  that fails does not resolve: \<^verbatim>\<open>saveNotifications\<close>, and \<^verbatim>\<open>addNotification\<close> after
  reading the stored list, reject with the error of the write.
\<close>

theorem notification_mutations_never_throw:
  "fst (createNotification inp w) = Inr () \<and>
   fst (markAsRead i w) = Inr () \<and>
   fst (markAllAsRead u w) = Inr () \<and>
   fst (deleteNotification i w) = Inr () \<and>
   (storage_failure w \<longrightarrow>
      items (snd (createNotification inp w)) = items w \<and>
      (\<exists>e. console (snd (createNotification inp w)) =
             console w @ [LogError ''Erro ao criar notificacao:'' e]) \<and>
      items (snd (markAsRead i w)) = items w \<and>
      (\<exists>e. console (snd (markAsRead i w)) =
             console w @ [LogError ''Erro ao marcar notificacao como lida:'' e]) \<and>
      items (snd (markAllAsRead u w)) = items w \<and>
      (\<exists>e. console (snd (markAllAsRead u w)) =
             console w @ [LogError ''Erro ao marcar todas as notificacoes como lidas:'' e]) \<and>
      items (snd (deleteNotification i w)) = items w \<and>
      (\<exists>e. console (snd (deleteNotification i w)) =
             console w @ [LogError ''Erro ao deletar notificacao:'' e])) \<and>
   (next_fault sw \<longrightarrow>
      fst (saveNotifications v sw) = Inl StorageError \<and>
      items (snd (saveNotifications v sw)) = items sw) \<and>
   (fst (getNotifications_storage sw) = Inr (JArr xs) \<and> next_fault (snd (getNotifications_storage sw)) \<longrightarrow>
      fst (addNotification v sw) = Inl StorageError)"
proof -
  have propagates: "next_fault sw \<longrightarrow>
      fst (saveNotifications v sw) = Inl StorageError \<and>
      items (snd (saveNotifications v sw)) = items sw"
    by (simp add: saveNotifications_def setItem_fault)
  have propagates_add:
    "fst (getNotifications_storage sw) = Inr (JArr xs) \<and> next_fault (snd (getNotifications_storage sw)) \<longrightarrow>
       fst (addNotification v sw) = Inl StorageError"
    by (cases "getNotifications_storage sw")
       (auto simp: addNotification_def saveNotifications_def setItem_fault)
  show ?thesis
    using createNotification_resolves [of inp w] markAsRead_resolves [of i w]
      markAllAsRead_resolves [of u w] deleteNotification_resolves [of i w]
      createNotification_failure [of w inp] markAsRead_failure [of w i]
      markAllAsRead_failure [of w u] deleteNotification_failure [of w i] propagates propagates_add
    by blast
qed

theorem notification_mutations_never_throw_witness:
  "storage_failure (notification_world\<lparr>faults := [False, True]\<rparr>) \<and>
   next_fault ((fresh_world :: json world)\<lparr>faults := [True]\<rparr>) \<and>
   fst (createNotification example_input (notification_world\<lparr>faults := [False, True]\<rparr>)) = Inr () \<and>
   fst (markAsRead ''1699999999000'' (notification_world\<lparr>faults := [False, True]\<rparr>)) = Inr () \<and>
   fst (markAllAsRead ''u1'' (notification_world\<lparr>faults := [False, True]\<rparr>)) = Inr () \<and>
   fst (deleteNotification ''1699999999000'' (notification_world\<lparr>faults := [False, True]\<rparr>)) = Inr () \<and>
   stored_notifications (snd (createNotification example_input (notification_world\<lparr>faults := [False, True]\<rparr>)))
     = Some example_notifications \<and>
   stored_notifications (snd (markAsRead ''1699999999000'' (notification_world\<lparr>faults := [False, True]\<rparr>)))
     = Some example_notifications \<and>
   stored_notifications (snd (markAllAsRead ''u1'' (notification_world\<lparr>faults := [False, True]\<rparr>)))
     = Some example_notifications \<and>
   stored_notifications (snd (deleteNotification ''1699999999000'' (notification_world\<lparr>faults := [False, True]\<rparr>)))
     = Some example_notifications \<and>
   fst (saveNotifications (JArr []) (fresh_world\<lparr>faults := [True]\<rparr>)) = Inl StorageError \<and>
   fst (getNotifications_storage (fresh_world\<lparr>faults := [False, True]\<rparr>)) = Inr (JArr []) \<and>
   next_fault (snd (getNotifications_storage (fresh_world\<lparr>faults := [False, True]\<rparr>))) \<and>
   fst (addNotification (JObj [(''id'', JStr ''n1'')]) (fresh_world\<lparr>faults := [False, True]\<rparr>)) = Inl StorageError"
proof -
  have g: "getNotifications_storage (fresh_world\<lparr>faults := [False, True]\<rparr>) =
             (Inr (JArr []), fresh_world\<lparr>faults := [True]\<rparr>)"
    by (simp add: getNotifications_storage_def getItem_def getItem_storage_def AsyncStorage_getItem_def
          next_fault_def consume_fault_def js_or_def fresh_world_def)
  from notification_mutations_never_throw
          [of example_input "notification_world\<lparr>faults := [False, True]\<rparr>" "''1699999999000''" "''u1''"
              "fresh_world\<lparr>faults := [True]\<rparr>" "JArr []" "[]"]
  have a: "fst (createNotification example_input (notification_world\<lparr>faults := [False, True]\<rparr>)) = Inr () \<and>
   fst (markAsRead ''1699999999000'' (notification_world\<lparr>faults := [False, True]\<rparr>)) = Inr () \<and>
   fst (markAllAsRead ''u1'' (notification_world\<lparr>faults := [False, True]\<rparr>)) = Inr () \<and>
   fst (deleteNotification ''1699999999000'' (notification_world\<lparr>faults := [False, True]\<rparr>)) = Inr () \<and>
   stored_notifications (snd (createNotification example_input (notification_world\<lparr>faults := [False, True]\<rparr>)))
     = Some example_notifications \<and>
   stored_notifications (snd (markAsRead ''1699999999000'' (notification_world\<lparr>faults := [False, True]\<rparr>)))
     = Some example_notifications \<and>
   stored_notifications (snd (markAllAsRead ''u1'' (notification_world\<lparr>faults := [False, True]\<rparr>)))
     = Some example_notifications \<and>
   stored_notifications (snd (deleteNotification ''1699999999000'' (notification_world\<lparr>faults := [False, True]\<rparr>)))
     = Some example_notifications \<and>
   fst (saveNotifications (JArr []) (fresh_world\<lparr>faults := [True]\<rparr>)) = Inl StorageError"
    by (simp add: storage_failure_def next_fault_def consume_fault_def notification_world_def
        fresh_world_def stored_notifications_def)
  from notification_mutations_never_throw
          [of example_input "notification_world" "''1699999999000''" "''u1''"
              "fresh_world\<lparr>faults := [False, True]\<rparr>" "JObj [(''id'', JStr ''n1'')]" "[]"]
  have b: "fst (addNotification (JObj [(''id'', JStr ''n1'')]) (fresh_world\<lparr>faults := [False, True]\<rparr>)) = Inl StorageError"
    by (simp add: g next_fault_def)
  have c: "storage_failure (notification_world\<lparr>faults := [False, True]\<rparr>)"
    "next_fault ((fresh_world :: json world)\<lparr>faults := [True]\<rparr>)"
    by (simp_all add: storage_failure_def next_fault_def consume_fault_def)
  from a b c g show ?thesis by (simp add: next_fault_def)
qed

subsection \<open>The general statistics\<close>

lemma getGeneralStatistics_ok:
  assumes "reads_succeed w" and "stored_appointments w = Some apts"
  shows "getGeneralStatistics_try w =
     (Inr \<lparr>totalAppointments = length apts,
           confirmedAppointments = length (filter (\<lambda>a. status a = Confirmed) apts),
           pendingAppointments = length (filter (\<lambda>a. status a = Pending) apts),
           cancelledAppointments = length (filter (\<lambda>a. status a = Cancelled) apts),
           totalPatients = length (remdups (map patientId apts)),
           totalDoctors = length (remdups (map doctorId apts)),
           appointmentsByMonth = fst (fold month_step apts (Map.empty, consume_fault (consume_fault w))),
           statusPercentages =
             \<lparr>confirmed = percentage (length (filter (\<lambda>a. status a = Confirmed) apts)) (length apts),
              pending = percentage (length (filter (\<lambda>a. status a = Pending) apts)) (length apts),
              cancelled = percentage (length (filter (\<lambda>a. status a = Cancelled) apts)) (length apts)\<rparr>\<rparr>,
      snd (fold month_step apts (Map.empty, consume_fault (consume_fault w))))"
proof -
  from assms(2) have nb: "items w ''@MedicalApp:appointments'' \<noteq> Some BadText"
    and ap: "(case items w ''@MedicalApp:appointments'' of Some (JsonText xs) \<Rightarrow> xs | _ \<Rightarrow> []) = apts"
    by (auto simp: stored_appointments_def split: option.splits stored_text.splits)
  from assms(1) have f1: "\<not> next_fault w" and f2: "\<not> next_fault (consume_fault w)"
    and ub: "items (consume_fault w) ''@MedicalApp:registeredUsers'' \<noteq> Some BadText"
    by (simp_all add: reads_succeed_def)
  show ?thesis
    by (simp add: getGeneralStatistics_try_def read_list_ok [OF f1 nb] read_list_ok [OF f2 ub] ap Let_def)
qed

lemma reads_succeed_only_appointments: "reads_succeed (only_appointments apts)"
  by (simp add: reads_succeed_def only_appointments_def fresh_world_def next_fault_def consume_fault_def)

lemma stored_appointments_only_appointments: "stored_appointments (only_appointments apts) = Some apts"
  by (simp add: stored_appointments_def only_appointments_def fresh_world_def)

subsection \<open>Rounding to binary64\<close>

lemma floor_numeral_quotient: "\<lfloor>numeral a / numeral b :: rat\<rfloor> = numeral a div numeral b"
  by (metis floor_divide_of_int_eq of_int_numeral)

lemma bit_length_bounds:
  "0 < n \<Longrightarrow> 2 ^ (bit_length n - 1) \<le> n \<and> n < 2 ^ bit_length n"
proof (induction n rule: bit_length.induct)
  case (1 n)
  show ?case
  proof (cases "n div 2 = 0")
    case True
    with "1.prems" have "n = 1" by (simp add: div_eq_0_iff)
    then show ?thesis by (simp add: bit_length.simps)
  next
    case False
    then have h: "0 < n div 2" by simp
    from "1.prems" have n0: "n \<noteq> 0" by simp
    from "1.IH" [OF n0 h]
    have lo: "2 ^ (bit_length (n div 2) - 1) \<le> n div 2" and hi: "n div 2 < 2 ^ bit_length (n div 2)"
      by simp_all
    have b: "bit_length n = Suc (bit_length (n div 2))"
      using n0 by (subst bit_length.simps) simp
    have pos: "0 < bit_length (n div 2)"
      using h by (subst bit_length.simps) simp
    then have s: "2 ^ bit_length (n div 2) = 2 * (2::nat) ^ (bit_length (n div 2) - 1)"
      by (cases "bit_length (n div 2)") simp_all
    from lo s have "2 ^ bit_length (n div 2) \<le> 2 * (n div 2)" by simp
    also have "\<dots> \<le> n" by simp
    finally have 1: "2 ^ (bit_length n - 1) \<le> n" by (simp add: b)
    from hi have "n div 2 + 1 \<le> 2 ^ bit_length (n div 2)" by simp
    then have "2 * (n div 2) + 2 \<le> 2 * 2 ^ bit_length (n div 2)" by simp
    moreover have "n < 2 * (n div 2) + 2" by arith
    ultimately have 2: "n < 2 ^ bit_length n" by (simp add: b)
    from 1 2 show ?thesis ..
  qed
qed

lemma round_half_even_error: "\<bar>of_int (round_half_even y) - y\<bar> \<le> 1 / 2"
proof -
  have a: "of_int \<lfloor>y\<rfloor> \<le> y" and b: "y < of_int \<lfloor>y\<rfloor> + 1" by linarith+
  show ?thesis
    using a b by (auto simp: round_half_even_def Let_def abs_le_iff)
qed

lemma powi_neg_nat: "(2::rat) powi (- int n) = 1 / 2 ^ n"
  by (simp add: power_int_minus_divide)

lemma powi_one_minus: "0 < n \<Longrightarrow> (2::rat) powi (1 - int n) = 1 / 2 ^ (n - 1)"
proof -
  assume "0 < n"
  then have "1 - int n = - int (n - 1)" by simp
  then show ?thesis by (simp only: powi_neg_nat)
qed

lemma powi_minus_one: "0 < n \<Longrightarrow> (2::rat) powi (int n - 1) = 2 ^ (n - 1)"
proof -
  assume "0 < n"
  then have "int n - 1 = int (n - 1)" by simp
  then show ?thesis by (simp only: power_int_of_nat)
qed

lemma powi_succ: "(2::rat) powi (k + 1) = 2 * 2 powi k"
  by (simp add: power_int_add)

lemma floor_nat_bounds:
  assumes "1 \<le> (y::rat)"
  shows "0 < nat \<lfloor>y\<rfloor>" and "rat_of_nat (nat \<lfloor>y\<rfloor>) \<le> y" and "y < rat_of_nat (nat \<lfloor>y\<rfloor>) + 1"
proof -
  from assms have f: "1 \<le> \<lfloor>y\<rfloor>" by (simp add: le_floor_iff)
  then show "0 < nat \<lfloor>y\<rfloor>" by simp
  from f have e: "rat_of_nat (nat \<lfloor>y\<rfloor>) = of_int \<lfloor>y\<rfloor>" by simp
  show "rat_of_nat (nat \<lfloor>y\<rfloor>) \<le> y" unfolding e by simp
  show "y < rat_of_nat (nat \<lfloor>y\<rfloor>) + 1" unfolding e by linarith
qed

lemma bit_length_bounds_rat:
  assumes "0 < n"
  shows "(2::rat) ^ (bit_length n - 1) \<le> rat_of_nat n" and "rat_of_nat n + 1 \<le> 2 ^ bit_length n"
    and "0 < bit_length n"
proof -
  from bit_length_bounds [OF assms]
  have lo: "2 ^ (bit_length n - 1) \<le> n" and hi: "n < 2 ^ bit_length n" by simp_all
  from lo have "rat_of_nat (2 ^ (bit_length n - 1)) \<le> rat_of_nat n" by (simp only: of_nat_le_iff)
  then show "(2::rat) ^ (bit_length n - 1) \<le> rat_of_nat n" by simp
  from hi have "n + 1 \<le> 2 ^ bit_length n" by simp
  then have "rat_of_nat (n + 1) \<le> rat_of_nat (2 ^ bit_length n)" by (simp only: of_nat_le_iff)
  then show "rat_of_nat n + 1 \<le> 2 ^ bit_length n" by simp
  from assms show "0 < bit_length n" by (subst bit_length.simps) simp
qed

lemma binary_exponent_bounds:
  assumes "0 < x"
  shows "2 powi binary_exponent x \<le> x \<and> x < 2 powi (binary_exponent x + 1)"
proof (cases "1 \<le> x")
  case True
  define f where "f = nat \<lfloor>x\<rfloor>"
  from floor_nat_bounds [OF True] have f: "0 < f" "rat_of_nat f \<le> x" "x < rat_of_nat f + 1"
    by (simp_all add: f_def)
  note b = bit_length_bounds_rat [OF f(1)]
  have e: "binary_exponent x = int (bit_length f) - 1"
    by (simp add: binary_exponent_def True f_def)
  from b(1) f(2) have "2 ^ (bit_length f - 1) \<le> x" by (rule order_trans)
  then have 1: "2 powi (int (bit_length f) - 1) \<le> x"
    by (simp only: powi_minus_one [OF b(3)])
  from f(3) b(2) have "x < 2 ^ bit_length f" by (rule less_le_trans)
  moreover have "int (bit_length f) - 1 + 1 = int (bit_length f)" by simp
  ultimately have 2: "x < 2 powi (int (bit_length f) - 1 + 1)"
    by (simp only: power_int_of_nat)
  from 1 2 show ?thesis by (simp only: e)
next
  case False
  with assms have y: "1 \<le> 1 / x" by simp
  define f where "f = nat \<lfloor>1 / x\<rfloor>"
  from floor_nat_bounds [OF y] have f: "0 < f" "rat_of_nat f \<le> 1 / x" "1 / x < rat_of_nat f + 1"
    by (simp_all add: f_def)
  note b = bit_length_bounds_rat [OF f(1)]
  define n where "n = bit_length f"
  have e: "binary_exponent x = (if 2 powi (1 - int n) \<le> x then 1 - int n else - int n)"
    using False by (simp add: binary_exponent_def f_def n_def Let_def)
  from f(3) b(2) have "1 / x < 2 ^ n" unfolding n_def by (rule less_le_trans)
  with assms have lo: "1 / 2 ^ n < x" by (simp add: field_simps)
  from b(1) f(2) have "2 ^ (n - 1) \<le> 1 / x" unfolding n_def by (rule order_trans)
  with assms have hi: "x \<le> 1 / 2 ^ (n - 1)" by (simp add: field_simps)
  have n0: "0 < n" using b(3) by (simp add: n_def)
  show ?thesis
  proof (cases "2 powi (1 - int n) \<le> x")
    case True
    have p: "(0::rat) < 1 / 2 ^ (n - 1)" by simp
    have "2 powi (1 - int n + 1) = 2 * (1 / (2::rat) ^ (n - 1))"
      by (simp only: powi_succ powi_one_minus [OF n0])
    moreover from hi p have "x < 2 * (1 / 2 ^ (n - 1))" by linarith
    ultimately have "x < 2 powi (1 - int n + 1)" by simp
    with True show ?thesis by (simp only: e if_True simp_thms)
  next
    case False
    have "- int n + 1 = 1 - int n" by simp
    with False lo show ?thesis by (simp add: e powi_neg_nat)
  qed
qed

lemma round_magnitude_error:
  assumes "2 powi (- 1022) \<le> x"
  shows "\<bar>round_magnitude x - x\<bar> \<le> x / 2 ^ 53"
proof -
  have "(0::rat) < 2 powi (- 1022)" by (rule zero_less_power_int) simp
  with assms have x0: "0 < x" by linarith
  define e where "e = binary_exponent x"
  from binary_exponent_bounds [OF x0] have lo: "2 powi e \<le> x" and hi: "x < 2 powi (e + 1)"
    by (simp_all add: e_def)
  have normal: "- 1022 \<le> e"
  proof (rule ccontr)
    assume "\<not> - 1022 \<le> e"
    then have "e + 1 \<le> - 1022" by simp
    then have "(2::rat) powi (e + 1) \<le> 2 powi (- 1022)" by (rule power_int_increasing) simp
    with assms hi show False by linarith
  qed
  define u where "u = (2::rat) powi (e - 52)"
  have u0: "0 < u" unfolding u_def by (rule zero_less_power_int) simp
  have "u = 2 powi e / 2 powi 52" unfolding u_def by (rule power_int_diff) simp
  then have u2: "u / 2 = 2 powi e / 2 ^ 53" by simp
  have r: "round_magnitude x = of_int (round_half_even (x / u)) * u"
    using normal by (simp add: round_magnitude_def e_def [symmetric] u_def max_def Let_def)
  have "of_int (round_half_even (x / u)) * u - x = (of_int (round_half_even (x / u)) - x / u) * u"
    using u0 by (simp add: field_simps)
  then have "\<bar>of_int (round_half_even (x / u)) * u - x\<bar> = \<bar>of_int (round_half_even (x / u)) - x / u\<bar> * \<bar>u\<bar>"
    by (simp only: abs_mult)
  also have "\<dots> = \<bar>of_int (round_half_even (x / u)) - x / u\<bar> * u"
    using u0 by simp
  also have "\<dots> \<le> 1 / 2 * u"
    using round_half_even_error [of "x / u"] u0 by (intro mult_right_mono) simp_all
  also have "\<dots> = 2 powi e / 2 ^ 53" using u2 by simp
  also have "\<dots> \<le> x / 2 ^ 53" using lo by (simp add: divide_right_mono)
  finally show ?thesis by (simp only: r)
qed

lemma to_number_normal:
  assumes "2 powi (- 1022) \<le> x" and "x \<le> 2 ^ 1023"
  shows "to_number x = Num (round_magnitude x)"
proof -
  have "(0::rat) < 2 powi (- 1022)" by (rule zero_less_power_int) simp
  with assms have x0: "0 < x" by linarith
  define d where "d = x / 2 ^ 53"
  from round_magnitude_error [OF assms(1)] have "\<bar>round_magnitude x - x\<bar> \<le> d"
    by (simp only: d_def)
  then have a: "round_magnitude x \<le> x + d" and b: "x - d \<le> round_magnitude x"
    by linarith+
  have "d < x" unfolding d_def using x0 by simp
  with a b have c: "round_magnitude x < 2 * x" and d: "0 < round_magnitude x" by linarith+
  from c assms(2) have "round_magnitude x < 2 * 2 ^ 1023" by linarith
  then have "round_magnitude x < 2 powi 1024" by simp
  with d x0 show ?thesis by (simp add: to_number_def Let_def)
qed

lemma to_number_zero: "to_number 0 = Num 0"
  by (simp add: to_number_def)

lemma percentage_zero: "0 < t \<Longrightarrow> percentage 0 t = Num 0"
  by (simp add: percentage_def js_divide_def to_number_zero)

lemma percentage_within_rounding:
  assumes "0 < c" and "c \<le> t" and "t < 2 ^ 32"
  shows "\<exists>p. percentage c t = Num p \<and>
             \<bar>p - rat_of_nat c / rat_of_nat t * 100\<bar> \<le> rat_of_nat c / rat_of_nat t * 100 / 2 ^ 51"
proof -
  define X where "X = rat_of_nat c / rat_of_nat t"
  define d where "d = X / 2 ^ 53"
  from assms have t0: "0 < t" by simp
  have tr: "rat_of_nat t < 2 ^ 32"
  proof -
    from assms(3) have "rat_of_nat t < rat_of_nat (2 ^ 32)" by (simp only: of_nat_less_iff)
    then show ?thesis by simp
  qed
  have cr: "1 \<le> rat_of_nat c" using assms(1) by simp
  have X1: "X \<le> 1" using assms(2) t0 by (simp add: X_def)
  have "1 / 2 ^ 32 \<le> 1 / rat_of_nat t" using tr t0 by (simp add: field_simps)
  also have "\<dots> \<le> X" unfolding X_def using cr t0 by (simp add: divide_right_mono)
  finally have Xlo: "1 / 2 ^ 32 \<le> X" .
  have tiny: "(2::rat) powi (- 1022) \<le> 1 / 2 ^ 32"
  proof -
    have "(2::rat) powi (- 1022) \<le> 2 powi (- 32)" by (rule power_int_increasing) simp_all
    also have "\<dots> = 1 / 2 ^ 32" by (simp add: power_int_minus_divide)
    finally show ?thesis .
  qed
  from tiny Xlo have Xn: "2 powi (- 1022) \<le> X" by linarith
  have X0: "0 < X" using Xlo by (simp add: less_le_trans [of 0 "1 / 2 ^ 32"])
  have d0: "0 < d" and dX: "d \<le> X / 2" unfolding d_def using X0 by simp_all
  have big: "(200::rat) \<le> 2 ^ 1023"
  proof -
    have "(200::rat) \<le> 2 ^ 8" by simp
    also have "\<dots> \<le> 2 ^ 1023" by (rule power_increasing) simp_all
    finally show ?thesis .
  qed
  from X1 big have "X \<le> 2 ^ 1023" by linarith
  from to_number_normal [OF Xn this] have q: "js_divide c t = Num (round_magnitude X)"
    using t0 by (simp add: js_divide_def X_def)
  define q where "q = round_magnitude X"
  from round_magnitude_error [OF Xn] have qe: "\<bar>q - X\<bar> \<le> d" by (simp only: q_def d_def)
  then have q_lo: "X - d \<le> q" and q_hi: "q \<le> X + d" by linarith+
  from q_lo dX X0 have qX: "X \<le> q * 100" by linarith
  with Xn have Yn: "2 powi (- 1022) \<le> q * 100" by linarith
  from q_hi dX X1 X0 have "q * 100 \<le> 200" by linarith
  with big have Yb: "q * 100 \<le> 2 ^ 1023" by linarith
  from to_number_normal [OF Yn Yb] have p: "percentage c t = Num (round_magnitude (q * 100))"
    using t0 by (simp add: percentage_def q q_def)
  define p where "p = round_magnitude (q * 100)"
  from round_magnitude_error [OF Yn] have pe: "\<bar>p - q * 100\<bar> \<le> q * 100 / 2 ^ 53" by (simp only: p_def)
  from q_hi dX X0 have "q \<le> 2 * X" by linarith
  then have "q / 2 ^ 53 \<le> 2 * X / 2 ^ 53" by (rule divide_right_mono) simp
  then have "q * 100 / 2 ^ 53 \<le> 200 * d" by (simp add: d_def)
  with pe have pe': "\<bar>p - q * 100\<bar> \<le> 200 * d" by linarith
  from pe' qe have "\<bar>p - X * 100\<bar> \<le> 300 * d" by linarith
  with d0 have "\<bar>p - X * 100\<bar> \<le> 400 * d" by linarith
  also have "400 * d = X * 100 / 2 ^ 51" by (simp add: d_def)
  finally have "\<bar>p - X * 100\<bar> \<le> X * 100 / 2 ^ 51" .
  with p show ?thesis by (simp add: p_def X_def)
qed

lemma percentage_close:
  assumes "c \<le> t" and "t < 2 ^ 32"
  shows "within_rounding (percentage c t) (exact_percentage c t)"
proof (cases "c = 0")
  case True
  show ?thesis
  proof (cases "t = 0")
    case True
    then show ?thesis by (simp add: percentage_def within_rounding_def exact_percentage_def)
  next
    case False
    with \<open>c = 0\<close> show ?thesis by (simp add: percentage_zero within_rounding_def exact_percentage_def)
  qed
next
  case False
  then have c0: "0 < c" by simp
  with assms(1) have t0: "0 < t" by simp
  from percentage_within_rounding [OF c0 assms] t0 show ?thesis
    by (auto simp: within_rounding_def exact_percentage_def)
qed

lemma count_status_le: "count_status st apts \<le> length apts"
  by (simp add: count_status_def)

subsection \<open>The status percentages\<close>

text \<open>
  C8, as stated, fails in its general half: the percentages are computed in binary64, and
  with 11 confirmed appointments among 20 the confirmed percentage is
  55.00000000000001 (the fraction below), not \<open>11 / 20 * 100 = 55\<close>.
\<close>

theorem eleven_of_twenty_is_not_55:
  "case fst (getGeneralStatistics (only_appointments eleven_of_twenty)) of
     Inl e \<Rightarrow> False
   | Inr s \<Rightarrow>
       totalAppointments s = 20 \<and> confirmedAppointments s = 11 \<and>
       confirmed (statusPercentages s) = Num (7740561859543041 / 140737488355328) \<and>
       confirmed (statusPercentages s) \<noteq> Num (11 / 20 * 100)"
  unfolding getGeneralStatistics_def
    getGeneralStatistics_ok [OF reads_succeed_only_appointments stored_appointments_only_appointments]
  by (simp add: eleven_of_twenty_def filter_replicate appointment_iso_date_def
        appointment_confirmed_march_def percentage_def js_divide_def to_number_def
        round_magnitude_def round_half_even_def binary_exponent_def bit_length.simps
        floor_numeral_quotient Let_def)

text \<open>
  C8, amended. When the two reads go through (and the list is shorter than \<open>2^32\<close>, as
  every JavaScript array is), \<^verbatim>\<open>getGeneralStatistics\<close> resolves; on the empty appointment
  list all three status percentages are the number 0, not NaN; in general each is 0 when
  the total is 0 and otherwise \<^verbatim>\<open>(count / total) * 100\<close> as binary64 computes it, the
  quotient rounded and the product rounded again: a finite number within a relative
  error of \<open>2^(-51)\<close> of the exact \<open>count / total * 100\<close>.
\<close>

theorem status_percentages_binary64:
  assumes "reads_succeed w" and "stored_appointments w = Some apts" and "length apts < 2 ^ 32"
  shows "\<exists>s. fst (getGeneralStatistics w) = Inr s \<and>
           confirmed (statusPercentages s) =
             (if length apts > 0 then times_100 (js_divide (count_status Confirmed apts) (length apts)) else Num 0) \<and>
           pending (statusPercentages s) =
             (if length apts > 0 then times_100 (js_divide (count_status Pending apts) (length apts)) else Num 0) \<and>
           cancelled (statusPercentages s) =
             (if length apts > 0 then times_100 (js_divide (count_status Cancelled apts) (length apts)) else Num 0) \<and>
           within_rounding (confirmed (statusPercentages s)) (exact_percentage (count_status Confirmed apts) (length apts)) \<and>
           within_rounding (pending (statusPercentages s)) (exact_percentage (count_status Pending apts) (length apts)) \<and>
           within_rounding (cancelled (statusPercentages s)) (exact_percentage (count_status Cancelled apts) (length apts)) \<and>
           (apts = [] \<longrightarrow> statusPercentages s = \<lparr>confirmed = Num 0, pending = Num 0, cancelled = Num 0\<rparr>)"
proof -
  note close = percentage_close [OF count_status_le assms(3)]
  have zero: "apts = [] \<Longrightarrow> percentage (count_status st apts) (length apts) = Num 0" for st
    by (simp add: percentage_def)
  show ?thesis
    unfolding getGeneralStatistics_def getGeneralStatistics_ok [OF assms(1,2)]
    using close [of Confirmed] close [of Pending] close [of Cancelled]
      zero [of Confirmed] zero [of Pending] zero [of Cancelled]
    by (simp add: count_status_def [symmetric]) (simp add: percentage_def)
qed

theorem status_percentages_binary64_witness:
  "reads_succeed (only_appointments []) \<and>
   stored_appointments (only_appointments []) = Some [] \<and>
   (\<exists>s. fst (getGeneralStatistics (only_appointments [])) = Inr s \<and>
        statusPercentages s = \<lparr>confirmed = Num 0, pending = Num 0, cancelled = Num 0\<rparr>) \<and>
   reads_succeed (only_appointments eleven_of_twenty) \<and>
   stored_appointments (only_appointments eleven_of_twenty) = Some eleven_of_twenty \<and>
   length eleven_of_twenty < 2 ^ 32 \<and>
   (\<exists>s. fst (getGeneralStatistics (only_appointments eleven_of_twenty)) = Inr s \<and>
        within_rounding (confirmed (statusPercentages s)) 55 \<and>
        within_rounding (pending (statusPercentages s)) 45 \<and>
        within_rounding (cancelled (statusPercentages s)) 0) \<and>
   js_divide 0 0 = NaN"
proof -
  have l: "length eleven_of_twenty < 2 ^ 32" "length ([] :: Appointment list) < 2 ^ 32"
    by (simp_all add: eleven_of_twenty_def)
  have c: "count_status Confirmed eleven_of_twenty = 11" "count_status Pending eleven_of_twenty = 9"
    "count_status Cancelled eleven_of_twenty = 0" "length eleven_of_twenty = 20"
    by (simp_all add: count_status_def eleven_of_twenty_def filter_replicate
          appointment_iso_date_def appointment_confirmed_march_def)
  have e: "exact_percentage 11 20 = 55" "exact_percentage 9 20 = 45" "exact_percentage 0 20 = 0"
    by (simp_all add: exact_percentage_def)
  from status_percentages_binary64
         [OF reads_succeed_only_appointments stored_appointments_only_appointments l(2)]
  have 1: "\<exists>s. fst (getGeneralStatistics (only_appointments [])) = Inr s \<and>
        statusPercentages s = \<lparr>confirmed = Num 0, pending = Num 0, cancelled = Num 0\<rparr>"
    by auto
  from status_percentages_binary64
         [OF reads_succeed_only_appointments stored_appointments_only_appointments l(1)]
  have 2: "\<exists>s. fst (getGeneralStatistics (only_appointments eleven_of_twenty)) = Inr s \<and>
        within_rounding (confirmed (statusPercentages s)) 55 \<and>
        within_rounding (pending (statusPercentages s)) 45 \<and>
        within_rounding (cancelled (statusPercentages s)) 0"
    by (auto simp: c e)
  from 1 2 l show ?thesis
    by (simp add: reads_succeed_only_appointments stored_appointments_only_appointments js_divide_def)
qed

text \<open>
  C2, at the appointment list \<^verbatim>\<open>[{..., date: "2024-01-15", status: "pending"}]\<close>: the
  date string is not in the format DD/MM/YYYY, \<^verbatim>\<open>split('/')\<close> does not throw on it, and
  the record is counted in the month histogram under the key \<^verbatim>\<open>undefined/undefined\<close>
  (the only bucket), as well as in the total and in the count of its status.
\<close>

theorem malformed_date_string_is_bucketed:
  "case fst (getGeneralStatistics (only_appointments [appointment_iso_date])) of
     Inl e \<Rightarrow> False
   | Inr s \<Rightarrow>
       appointmentsByMonth s ''undefined/undefined'' = Some 1 \<and>
       dom (appointmentsByMonth s) = {''undefined/undefined''} \<and>
       totalAppointments s = 1 \<and> pendingAppointments s = 1"
proof -
  have k: "monthKey ''2024-01-15'' = ''undefined/undefined''"
    by (simp add: monthKey_def element_def template_def)
  show ?thesis
    unfolding getGeneralStatistics_def
      getGeneralStatistics_ok [OF reads_succeed_only_appointments stored_appointments_only_appointments]
    by (simp add: month_step_def increment_def appointment_iso_date_def k)
qed

subsection \<open>The id of a new notification\<close>

lemma digit_char_code: "d < 10 \<Longrightarrow> of_char (digit_char d) = 48 + d"
proof -
  assume "d < 10"
  then have "d = 0 \<or> d = 1 \<or> d = 2 \<or> d = 3 \<or> d = 4 \<or> d = 5 \<or> d = 6 \<or> d = 7 \<or> d = 8 \<or> d = 9"
    by arith
  then show ?thesis
    by (elim disjE) (simp_all add: digit_char_def)
qed

lemma digit_char_inj: "a < 10 \<Longrightarrow> b < 10 \<Longrightarrow> digit_char a = digit_char b \<Longrightarrow> a = b"
proof -
  assume a: "a < 10" and b: "b < 10" and e: "digit_char a = digit_char b"
  have "(of_char (digit_char a) :: nat) = of_char (digit_char b)" using e by simp
  then show "a = b" by (simp add: digit_char_code a b)
qed

lemma toString_nat_nonempty: "toString_nat n \<noteq> []"
  by (subst toString_nat.simps) simp

text \<open>Two numbers with the same decimal digits are equal: the last digit and the rest agree.\<close>

lemma toString_nat_inj: "toString_nat m = toString_nat n \<Longrightarrow> m = n"
proof (induction m arbitrary: n rule: toString_nat.induct)
  case (1 m)
  show ?case
  proof (cases "m < 10")
    case m: True
    show ?thesis
    proof (cases "n < 10")
      case True
      with m "1.prems" show ?thesis
        by (simp add: toString_nat.simps [of m] toString_nat.simps [of n] digit_char_inj)
    next
      case False
      with m "1.prems" have "toString_nat (n div 10) = []"
        by (simp add: toString_nat.simps [of m] toString_nat.simps [of n])
      then show ?thesis by (simp add: toString_nat_nonempty)
    qed
  next
    case m: False
    show ?thesis
    proof (cases "n < 10")
      case True
      with m "1.prems" have "toString_nat (m div 10) = []"
        by (simp add: toString_nat.simps [of m] toString_nat.simps [of n])
      then show ?thesis by (simp add: toString_nat_nonempty)
    next
      case False
      with m "1.prems" have e: "toString_nat (m div 10) = toString_nat (n div 10)"
        and d: "digit_char (m mod 10) = digit_char (n mod 10)"
        by (simp_all add: toString_nat.simps [of m] toString_nat.simps [of n])
      from "1.IH" [OF m e] have q: "m div 10 = n div 10" .
      from d have r: "m mod 10 = n mod 10" by (simp add: digit_char_inj)
      from q r show ?thesis by (metis div_mult_mod_eq)
    qed
  qed
qed

text \<open>
  C3, at two calls of \<^verbatim>\<open>createNotification\<close> within one millisecond (the clock at
  1700000000000 for both, the store empty before): the id is \<^verbatim>\<open>Date.now().toString()\<close>,
  which the code's comments call unique, and both notifications are stored with the id
  \<^verbatim>\<open>1700000000000\<close>; \<^verbatim>\<open>deleteNotification\<close> of that id then removes both.
\<close>

theorem same_millisecond_same_id:
  "map_option (map id_n)
     (stored_notifications
        (snd (createNotification example_input (snd (createNotification example_input fresh_world)))))
   = Some [''1700000000000'', ''1700000000000''] \<and>
   stored_notifications
     (snd (deleteNotification ''1700000000000''
        (snd (createNotification example_input (snd (createNotification example_input fresh_world))))))
   = Some []"
  by (simp add: createNotification_def createNotification_try_def deleteNotification_def
        deleteNotification_try_def read_list_def
        AsyncStorage_getItem_def AsyncStorage_setItem_def next_fault_def consume_fault_def
        fresh_world_def text_truthy_def JSON_parse_def JSON_stringify_def stored_notifications_def
        STORAGE_KEY_def Let_def toString_nat.simps digit_char_def)

text \<open>
  What \<^verbatim>\<open>createNotification\<close> stores when nothing fails: the stored list with one
  notification appended, made of the given fields, \<^verbatim>\<open>id\<close> the decimal string of the
  clock's millisecond timestamp, \<^verbatim>\<open>createdAt\<close> the current time and \<^verbatim>\<open>read\<close> false.
  The decimal strings of two different timestamps differ.
\<close>

theorem createNotification_timestamp_id:
  assumes "\<not> storage_failure w" and "stored_notifications w = Some ns"
  shows "fst (createNotification inp w) = Inr () \<and>
         stored_notifications (snd (createNotification inp w)) =
           Some (ns @ [\<lparr>userId = userId inp, title = title inp, message = message inp,
                        type_n = type_n inp, appointmentId = appointmentId inp,
                        id_n = toString_nat (now w), read = False, createdAt = now w\<rparr>]) \<and>
         (\<forall>t. t \<noteq> now w \<longrightarrow> toString_nat t \<noteq> toString_nat (now w))"
proof -
  from assms(2) have nb: "items w STORAGE_KEY \<noteq> Some BadText"
    and ns: "(case items w STORAGE_KEY of Some (JsonText xs) \<Rightarrow> xs | _ \<Rightarrow> []) = ns"
    by (auto simp: stored_notifications_def split: option.splits stored_text.splits)
  from assms(1) have f1: "\<not> next_fault w" and f2: "\<not> next_fault (consume_fault w)"
    by (simp_all add: storage_failure_def)
  have "createNotification inp w =
          (Inr (), (consume_fault (consume_fault w))
                     \<lparr>items := (items w)(STORAGE_KEY \<mapsto>
                         JsonText (ns @ [\<lparr>userId = userId inp, title = title inp, message = message inp,
                                          type_n = type_n inp, appointmentId = appointmentId inp,
                                          id_n = toString_nat (now w), read = False,
                                          createdAt = now w\<rparr>]))\<rparr>)"
    by (simp add: createNotification_def createNotification_try_def read_list_ok [OF f1 nb] ns
          write_after_read f2 Let_def JSON_stringify_def)
  then show ?thesis
    by (auto simp: stored_notifications_def dest: toString_nat_inj)
qed

theorem createNotification_timestamp_id_witness:
  "\<not> storage_failure notification_world \<and>
   stored_notifications notification_world = Some example_notifications \<and>
   fst (createNotification example_input notification_world) = Inr () \<and>
   stored_notifications (snd (createNotification example_input notification_world)) =
     Some (example_notifications @
       [\<lparr>userId = ''u1'', title = ''Consulta Confirmada'', message = ''Sua consulta foi confirmada.'',
         type_n = appointment_confirmed, appointmentId = Some ''a1'',
         id_n = ''1700000000000'', read = False, createdAt = 1700000000000\<rparr>]) \<and>
   toString_nat 1700000000001 \<noteq> ''1700000000000''"
proof -
  have f: "\<not> storage_failure notification_world"
    by (simp add: storage_failure_def next_fault_def consume_fault_def notification_world_def
          fresh_world_def STORAGE_KEY_def)
  have s: "stored_notifications notification_world = Some example_notifications"
    by (simp add: stored_notifications_def notification_world_def fresh_world_def)
  have n: "now notification_world = 1700000000000"
    by (simp add: notification_world_def fresh_world_def)
  have d: "toString_nat 1700000000000 = ''1700000000000''"
    by (simp add: toString_nat.simps digit_char_def)
  from createNotification_timestamp_id [OF f s, of example_input] show ?thesis
    by (simp add: f s n d example_input_def)
qed

subsection \<open>Restoring a backup\<close>

lemma setItem_cases:
  "setItem k v ttl w =
     (if next_fault w
      then (Inl StorageError, console_error (''Erro ao salvar '' @ k @ '':'') StorageError (consume_fault w))
      else (Inr (), (consume_fault w)\<lparr>items := (items w)(k \<mapsto> JsonText v),
                      cache := (cache w)(k \<mapsto> \<lparr>data = v, timestamp = now w, expiry = expiry_of ttl (now w)\<rparr>)\<rparr>))"
  by (simp add: setItem_def AsyncStorage_setItem_def JSON_stringify_def Let_def)

lemma next_fault_fault_at: "next_fault w = fault_at 0 w"
  by (cases "faults w") (simp_all add: next_fault_def fault_at_def)

lemma fault_at_consume_fault [simp]: "fault_at i (consume_fault w) = fault_at (Suc i) w"
  by (cases "faults w") (simp_all add: consume_fault_def fault_at_def)

lemma fault_at_items_update [simp]: "fault_at i (w\<lparr>items := x\<rparr>) = fault_at i w"
  by (simp add: fault_at_def)

lemma fault_at_cache_update [simp]: "fault_at i (w\<lparr>cache := x\<rparr>) = fault_at i w"
  by (simp add: fault_at_def)

lemma consume_fault_items_update [simp]: "consume_fault (w\<lparr>items := x\<rparr>) = (consume_fault w)\<lparr>items := x\<rparr>"
  by (simp add: consume_fault_def)

lemma consume_fault_cache_update [simp]: "consume_fault (w\<lparr>cache := x\<rparr>) = (consume_fault w)\<lparr>cache := x\<rparr>"
  by (simp add: consume_fault_def)

lemma get_prop_truthy: "truthy d \<Longrightarrow> get_prop d name = Inr (case d of JObj kvs \<Rightarrow> map_of kvs name | _ \<Rightarrow> None)"
  by (cases d) simp_all

lemma keys_distinct:
  "STORAGE_KEYS_APPOINTMENTS \<noteq> STORAGE_KEYS_NOTIFICATIONS"
  "STORAGE_KEYS_APPOINTMENTS \<noteq> STORAGE_KEYS_REGISTERED_USERS"
  "STORAGE_KEYS_APPOINTMENTS \<noteq> STORAGE_KEYS_APP_SETTINGS"
  "STORAGE_KEYS_NOTIFICATIONS \<noteq> STORAGE_KEYS_REGISTERED_USERS"
  "STORAGE_KEYS_NOTIFICATIONS \<noteq> STORAGE_KEYS_APP_SETTINGS"
  "STORAGE_KEYS_REGISTERED_USERS \<noteq> STORAGE_KEYS_APP_SETTINGS"
  by (simp_all add: STORAGE_KEYS_APPOINTMENTS_def STORAGE_KEYS_NOTIFICATIONS_def
        STORAGE_KEYS_REGISTERED_USERS_def STORAGE_KEYS_APP_SETTINGS_def)

lemma restore_try_data:
  assumes "snapshot_data s = Some d"
  shows "restoreFromBackup_try s w =
     (case setItem STORAGE_KEYS_APPOINTMENTS (section_or d ''appointments'' (JArr [])) None w of
        (Inl e, w1) \<Rightarrow> (Inl e, w1)
      | (Inr u1, w1) \<Rightarrow>
     (case setItem STORAGE_KEYS_NOTIFICATIONS (section_or d ''notifications'' (JArr [])) None w1 of
        (Inl e, w2) \<Rightarrow> (Inl e, w2)
      | (Inr u2, w2) \<Rightarrow>
     (case setItem STORAGE_KEYS_REGISTERED_USERS (section_or d ''registeredUsers'' (JArr [])) None w2 of
        (Inl e, w3) \<Rightarrow> (Inl e, w3)
      | (Inr u3, w3) \<Rightarrow>
         setItem STORAGE_KEYS_APP_SETTINGS (section_or d ''settings'' (JObj [])) None w3)))"
proof -
  from assms obtain b where p: "JSON_parse s = Inr b" and g: "get_prop b ''data'' = Inr (Some d)" and t: "truthy d"
    by (auto simp: snapshot_data_def split: sum.splits option.splits if_splits)
  show ?thesis
    by (simp add: restoreFromBackup_try_def p g t section_or_def get_prop_truthy [OF t]
          split: prod.splits sum.splits)
qed

lemma restore_no_parse:
  "JSON_parse s = Inl e \<Longrightarrow> restoreFromBackup s w = (Inl e, console_error ''Erro ao restaurar backup:'' e w)"
  by (simp add: restoreFromBackup_def restoreFromBackup_try_def)

lemma restore_all:
  assumes "snapshot_data s = Some d" and "\<forall>i<4. \<not> fault_at i w"
  shows "fst (restoreFromBackup s w) = Inr () \<and>
         four_sections (snd (restoreFromBackup s w)) = snapshot_sections d (now w)"
proof -
  from assms(2) have f: "\<not> fault_at 0 w" "\<not> fault_at (Suc 0) w" "\<not> fault_at (Suc (Suc 0)) w" "\<not> fault_at (Suc (Suc (Suc 0))) w"
    by simp_all
  show ?thesis
    by (simp add: restoreFromBackup_def restore_try_data [OF assms(1)] setItem_cases next_fault_fault_at f
          four_sections_def section_of_def snapshot_sections_def replaced_by_def expiry_of_def keys_distinct
          keys_distinct [symmetric])
qed

lemma restore_stops_at_fault:
  assumes "snapshot_data s = Some d" and "k < 4" and "\<forall>i<k. \<not> fault_at i w" and "fault_at k w"
  shows "fst (restoreFromBackup s w) = Inl StorageError \<and>
         four_sections (snd (restoreFromBackup s w)) =
           take k (snapshot_sections d (now w)) @ drop k (four_sections w)"
proof -
  from assms(2) have "k = 0 \<or> k = Suc 0 \<or> k = Suc (Suc 0) \<or> k = Suc (Suc (Suc 0))" by arith
  then show ?thesis
  proof (elim disjE)
    assume k: "k = 0"
    with assms(4) show ?thesis
      by (simp add: restoreFromBackup_def restore_try_data [OF assms(1)] setItem_cases next_fault_fault_at
          four_sections_def section_of_def)
  next
    assume k: "k = Suc 0"
    with assms(3,4) have f: "\<not> fault_at 0 w" "fault_at (Suc 0) w" by simp_all
    show ?thesis
      by (simp add: k restoreFromBackup_def restore_try_data [OF assms(1)] setItem_cases next_fault_fault_at f
          four_sections_def section_of_def snapshot_sections_def replaced_by_def expiry_of_def keys_distinct
          keys_distinct [symmetric])
  next
    assume k: "k = Suc (Suc 0)"
    with assms(3,4) have f: "\<not> fault_at 0 w" "\<not> fault_at (Suc 0) w" "fault_at (Suc (Suc 0)) w" by simp_all
    show ?thesis
      by (simp add: k restoreFromBackup_def restore_try_data [OF assms(1)] setItem_cases next_fault_fault_at f
          four_sections_def section_of_def snapshot_sections_def replaced_by_def expiry_of_def keys_distinct
          keys_distinct [symmetric])
  next
    assume k: "k = Suc (Suc (Suc 0))"
    with assms(3,4) have f: "\<not> fault_at 0 w" "\<not> fault_at (Suc 0) w" "\<not> fault_at (Suc (Suc 0)) w" "fault_at (Suc (Suc (Suc 0))) w" by simp_all
    show ?thesis
      by (simp add: k restoreFromBackup_def restore_try_data [OF assms(1)] setItem_cases next_fault_fault_at f
          four_sections_def section_of_def snapshot_sections_def replaced_by_def expiry_of_def keys_distinct
          keys_distinct [symmetric])
  qed
qed

lemma restore_nothing:
  assumes "snapshot_data s = None"
  shows "four_sections (snd (restoreFromBackup s w)) = four_sections w"
  using assms
  by (auto simp: snapshot_data_def restoreFromBackup_def restoreFromBackup_try_def
        four_sections_def section_of_def split: sum.splits option.splits if_splits)

text \<open>
  C1, as stated, fails: the four sections are written one after the other, and a write
  that is rejected ends the restore where it stands. Here the second write is rejected:
  the appointments are those of the snapshot, the other three sections the old ones.
\<close>

theorem restore_mixed_state:
  "fst (restoreFromBackup example_snapshot (old_world\<lparr>faults := [False, True]\<rparr>)) = Inl StorageError \<and>
   map fst (four_sections old_world) =
     [Some (JsonText (JArr [])), Some (JsonText (JArr [])), Some (JsonText (JArr [])),
      Some (JsonText (JObj [(''theme'', JStr ''light'')]))] \<and>
   map fst (four_sections (snd (restoreFromBackup example_snapshot (old_world\<lparr>faults := [False, True]\<rparr>)))) =
     [Some (JsonText (JArr [json_id1])), Some (JsonText (JArr [])), Some (JsonText (JArr [])),
      Some (JsonText (JObj [(''theme'', JStr ''light'')]))]"
  by (simp add: restoreFromBackup_def restoreFromBackup_try_def example_snapshot_def old_world_def
        fresh_world_def JSON_parse_def setItem_cases next_fault_def consume_fault_def js_or_def
        four_sections_def section_of_def keys_distinct keys_distinct [symmetric] console_error_def)

text \<open>
  C1, amended. A snapshot text that does not parse makes \<^verbatim>\<open>restoreFromBackup\<close> throw
  the parse error, and a snapshot without truthy \<^verbatim>\<open>data\<close> (among them every text that
  does not parse) leaves the four sections as they were. For a snapshot with truthy
  \<^verbatim>\<open>data\<close>: when none of the four writes is rejected, \<^verbatim>\<open>restoreFromBackup\<close> resolves
  and all four sections are those of the snapshot; when write number \<open>k\<close> is the first
  rejected one, it throws, the \<open>k\<close> sections written before are those of the snapshot and
  the others are as they were.
\<close>

theorem restoreFromBackup_outcomes:
  "(JSON_parse s = Inl e \<longrightarrow> fst (restoreFromBackup s w) = Inl e) \<and>
   (snapshot_data s = None \<longrightarrow> four_sections (snd (restoreFromBackup s w)) = four_sections w) \<and>
   (snapshot_data s = Some d \<and> (\<forall>i<4. \<not> fault_at i w) \<longrightarrow>
      fst (restoreFromBackup s w) = Inr () \<and>
      four_sections (snd (restoreFromBackup s w)) = snapshot_sections d (now w)) \<and>
   (snapshot_data s = Some d \<and> k < 4 \<and> (\<forall>i<k. \<not> fault_at i w) \<and> fault_at k w \<longrightarrow>
      fst (restoreFromBackup s w) = Inl StorageError \<and>
      four_sections (snd (restoreFromBackup s w)) =
        take k (snapshot_sections d (now w)) @ drop k (four_sections w))"
  using restore_no_parse [of s e w] restore_nothing [of s w] restore_all [of s d w]
    restore_stops_at_fault [of s d k w]
  by simp

lemma snapshot_data_example:
  "snapshot_data example_snapshot =
     Some (JObj [(''appointments'', JArr [json_id1]),
                 (''notifications'', JArr [JObj [(''id'', JStr ''n1'')]]),
                 (''registeredUsers'', JArr [JObj [(''id'', JStr ''u1'')]]),
                 (''settings'', JObj [(''theme'', JStr ''dark'')])])"
  by (simp add: snapshot_data_def example_snapshot_def JSON_parse_def)

theorem restoreFromBackup_outcomes_witness:
  "JSON_parse (BadText :: json stored_text) = Inl SyntaxError \<and>
   snapshot_data BadText = None \<and>
   fst (restoreFromBackup BadText old_world) = Inl SyntaxError \<and>
   four_sections (snd (restoreFromBackup BadText old_world)) = four_sections old_world \<and>
   faults old_world = [] \<and>
   fst (restoreFromBackup example_snapshot old_world) = Inr () \<and>
   map fst (four_sections (snd (restoreFromBackup example_snapshot old_world))) =
     [Some (JsonText (JArr [json_id1])), Some (JsonText (JArr [JObj [(''id'', JStr ''n1'')]])),
      Some (JsonText (JArr [JObj [(''id'', JStr ''u1'')]])), Some (JsonText (JObj [(''theme'', JStr ''dark'')]))] \<and>
   fault_at 1 (old_world\<lparr>faults := [False, True]\<rparr>) \<and>
   \<not> fault_at 0 (old_world\<lparr>faults := [False, True]\<rparr>) \<and>
   fst (restoreFromBackup example_snapshot (old_world\<lparr>faults := [False, True]\<rparr>)) = Inl StorageError \<and>
   map fst (four_sections (snd (restoreFromBackup example_snapshot (old_world\<lparr>faults := [False, True]\<rparr>)))) =
     [Some (JsonText (JArr [json_id1])), Some (JsonText (JArr [])), Some (JsonText (JArr [])),
      Some (JsonText (JObj [(''theme'', JStr ''light'')]))]"
proof -
  have a: "JSON_parse (BadText :: json stored_text) = Inl SyntaxError" "snapshot_data BadText = None"
    by (simp_all add: JSON_parse_def snapshot_data_def)
  have b: "\<forall>i<4. \<not> fault_at i old_world"
    by (simp add: fault_at_def old_world_def fresh_world_def)
  have c: "fault_at 1 (old_world\<lparr>faults := [False, True]\<rparr>)" "\<not> fault_at 0 (old_world\<lparr>faults := [False, True]\<rparr>)"
    "\<forall>i<1. \<not> fault_at i (old_world\<lparr>faults := [False, True]\<rparr>)"
    by (simp_all add: fault_at_def)
  have o: "map fst (four_sections (old_world\<lparr>faults := [False, True]\<rparr>)) =
     [Some (JsonText (JArr [])), Some (JsonText (JArr [])), Some (JsonText (JArr [])),
      Some (JsonText (JObj [(''theme'', JStr ''light'')]))]"
    by (simp add: four_sections_def section_of_def old_world_def fresh_world_def keys_distinct keys_distinct [symmetric])
  have n: "map fst (snapshot_sections (JObj [(''appointments'', JArr [json_id1]),
                 (''notifications'', JArr [JObj [(''id'', JStr ''n1'')]]),
                 (''registeredUsers'', JArr [JObj [(''id'', JStr ''u1'')]]),
                 (''settings'', JObj [(''theme'', JStr ''dark'')])]) t) =
     [Some (JsonText (JArr [json_id1])), Some (JsonText (JArr [JObj [(''id'', JStr ''n1'')]])),
      Some (JsonText (JArr [JObj [(''id'', JStr ''u1'')]])), Some (JsonText (JObj [(''theme'', JStr ''dark'')]))]" for t
    by (simp add: snapshot_sections_def replaced_by_def section_or_def js_or_def)
  from restoreFromBackup_outcomes [of BadText SyntaxError old_world undefined 0]
  have 1: "fst (restoreFromBackup BadText old_world) = Inl SyntaxError"
    "four_sections (snd (restoreFromBackup BadText old_world)) = four_sections old_world"
    by (simp_all add: a)
  from restoreFromBackup_outcomes [of example_snapshot undefined old_world _ 0] snapshot_data_example b
  have 2: "fst (restoreFromBackup example_snapshot old_world) = Inr ()"
    "map fst (four_sections (snd (restoreFromBackup example_snapshot old_world))) =
     [Some (JsonText (JArr [json_id1])), Some (JsonText (JArr [JObj [(''id'', JStr ''n1'')]])),
      Some (JsonText (JArr [JObj [(''id'', JStr ''u1'')]])), Some (JsonText (JObj [(''theme'', JStr ''dark'')]))]"
    by (simp_all add: n)
  from restoreFromBackup_outcomes [of example_snapshot undefined "old_world\<lparr>faults := [False, True]\<rparr>" _ 1]
    snapshot_data_example c
  have 3: "fst (restoreFromBackup example_snapshot (old_world\<lparr>faults := [False, True]\<rparr>)) = Inl StorageError"
    "map fst (four_sections (snd (restoreFromBackup example_snapshot (old_world\<lparr>faults := [False, True]\<rparr>)))) =
     [Some (JsonText (JArr [json_id1])), Some (JsonText (JArr [])), Some (JsonText (JArr [])),
      Some (JsonText (JObj [(''theme'', JStr ''light'')]))]"
    using n o by (simp_all add: take_map [symmetric] drop_map [symmetric])
  have e: "faults old_world = []"
    by (simp add: old_world_def fresh_world_def)
  from a c e 1 2 3 show ?thesis by simp
qed

text \<open>
  C10, as stated, fails at the snapshot text \<^verbatim>\<open>null\<close>: it parses, it has no \<^verbatim>\<open>data\<close>
  field, and reading \<^verbatim>\<open>backup.data\<close> throws a TypeError that the \<^verbatim>\<open>catch\<close> throws again.
\<close>

theorem restore_null_throws:
  "JSON_parse (JsonText JNull) = Inr JNull \<and> data_absent_or_falsy JNull \<and>
   fst (restoreFromBackup (JsonText JNull) fresh_world) = Inl TypeError"
  by (simp add: JSON_parse_def data_absent_or_falsy_def data_field_def restoreFromBackup_def
        restoreFromBackup_try_def)

text \<open>
  C10, amended. If the snapshot text parses to a value other than \<^verbatim>\<open>null\<close> whose
  top-level \<^verbatim>\<open>data\<close> field is absent or falsy, \<^verbatim>\<open>restoreFromBackup\<close> resolves and the
  world is as before: nothing is written. If it parses to \<^verbatim>\<open>null\<close>, it throws a
  TypeError, and what is stored and cached is as before.
\<close>

theorem restore_without_data:
  assumes "JSON_parse s = Inr b" and "data_absent_or_falsy b"
  shows "(b \<noteq> JNull \<longrightarrow> restoreFromBackup s w = (Inr (), w)) \<and>
         (b = JNull \<longrightarrow> fst (restoreFromBackup s w) = Inl TypeError \<and>
                         items (snd (restoreFromBackup s w)) = items w \<and>
                         cache (snd (restoreFromBackup s w)) = cache w \<and>
                         console (snd (restoreFromBackup s w)) =
                           console w @ [LogError ''Erro ao restaurar backup:'' TypeError])"
  using assms
  by (cases b)
     (auto simp: restoreFromBackup_def restoreFromBackup_try_def data_absent_or_falsy_def
        data_field_def split: option.splits)

theorem restore_without_data_witness:
  "JSON_parse (JsonText (JObj [])) = Inr (JObj []) \<and>
   data_absent_or_falsy (JObj []) \<and>
   restoreFromBackup (JsonText (JObj [])) old_world = (Inr (), old_world) \<and>
   data_absent_or_falsy (JObj [(''data'', JNum 0)]) \<and>
   restoreFromBackup (JsonText (JObj [(''data'', JNum 0)])) old_world = (Inr (), old_world) \<and>
   data_absent_or_falsy JNull \<and>
   fst (restoreFromBackup (JsonText JNull) old_world) = Inl TypeError \<and>
   items (snd (restoreFromBackup (JsonText JNull) old_world)) = items old_world"
  using restore_without_data [of "JsonText (JObj [])" "JObj []" old_world]
    restore_without_data [of "JsonText (JObj [(''data'', JNum 0)])" "JObj [(''data'', JNum 0)]" old_world]
    restore_without_data [of "JsonText JNull" JNull old_world]
  by (simp add: JSON_parse_def data_absent_or_falsy_def data_field_def)

subsection \<open>Defaults of getItem\<close>

lemma getItem_resolves: "\<exists>v. fst (getItem k d w) = Inr v"
  by (auto simp: getItem_def getItem_storage_def split: option.splits prod.splits sum.splits)

text \<open>
  C5, at a key that is neither cached nor stored and the defaults \<^verbatim>\<open>0\<close>, \<^verbatim>\<open>false\<close>
  and \<^verbatim>\<open>""\<close>: \<^verbatim>\<open>getItem\<close> returns \<^verbatim>\<open>null\<close>, not the default, since
  \<^verbatim>\<open>defaultValue || null\<close> replaces every falsy default.
\<close>

theorem getItem_falsy_default:
  "items (fresh_world :: json world) ''k'' = None \<and>
   cache (fresh_world :: json world) ''k'' = None \<and>
   fst (getItem ''k'' (Some (JNum 0)) fresh_world) = Inr JNull \<and>
   fst (getItem ''k'' (Some (JBool False)) fresh_world) = Inr JNull \<and>
   fst (getItem ''k'' (Some (JStr [])) fresh_world) = Inr JNull"
  by (simp add: getItem_def getItem_storage_def AsyncStorage_getItem_def next_fault_def
        consume_fault_def js_or_def fresh_world_def)

subsection \<open>Adding an appointment\<close>

text \<open>
  C6, as stated, fails when the stored collection already holds \<open>x\<close>: nothing in
  \<^verbatim>\<open>addAppointment\<close> looks for it, and the list read back holds it twice.
\<close>

theorem addAppointment_duplicate:
  "fst (getAppointments (snd (addAppointment json_id1
      (fresh_world\<lparr>items := [STORAGE_KEYS_APPOINTMENTS \<mapsto> JsonText (JArr [json_id1])]\<rparr>))))
     = Inr (JArr [json_id1, json_id1]) \<and>
   count_list [json_id1, json_id1] json_id1 = 2"
  by (simp add: addAppointment_def getAppointments_def saveAppointments_def getItem_def
        getItem_storage_def setItem_cases AsyncStorage_getItem_def next_fault_def consume_fault_def
        fresh_world_def text_truthy_def JSON_parse_def cache_valid_def expiry_of_def)

text \<open>
  C6, amended. When \<^verbatim>\<open>getAppointments()\<close> gives the list \<open>xs\<close> and
  \<^verbatim>\<open>addAppointment(x)\<close> resolves, every later \<^verbatim>\<open>getAppointments()\<close> that finds the cache
  entry \<^verbatim>\<open>addAppointment\<close> left gives \<open>xs\<close> with \<open>x\<close> appended: \<open>x\<close> occurs once more than
  in \<open>xs\<close>, so exactly once when it did not occur in the stored collection.
\<close>

theorem addAppointment_appends:
  assumes "fst (getAppointments w) = Inr (JArr xs)"
    and "fst (addAppointment x w) = Inr ()"
    and "cache w2 STORAGE_KEYS_APPOINTMENTS = cache (snd (addAppointment x w)) STORAGE_KEYS_APPOINTMENTS"
  shows "fst (getAppointments w2) = Inr (JArr (xs @ [x])) \<and>
         count_list (xs @ [x]) x = count_list xs x + 1 \<and>
         (x \<notin> set xs \<longrightarrow> count_list (xs @ [x]) x = 1)"
proof -
  obtain r w1 where g: "getAppointments w = (r, w1)" by (cases "getAppointments w")
  with assms(1) have r: "r = Inr (JArr xs)" by simp
  from assms(2) have nf: "\<not> next_fault w1"
    by (auto simp: addAppointment_def g r saveAppointments_def setItem_cases split: if_splits)
  then have "cache (snd (addAppointment x w)) STORAGE_KEYS_APPOINTMENTS =
          Some \<lparr>data = JArr (xs @ [x]), timestamp = now w1, expiry = None\<rparr>"
    by (simp add: addAppointment_def g r saveAppointments_def setItem_cases expiry_of_def)
  with assms(3) have "getAppointments w2 = (Inr (JArr (xs @ [x])), w2)"
    by (simp add: getAppointments_def getItem_def cache_valid_def)
  then show ?thesis by (simp add: count_list_0_iff)
qed

theorem addAppointment_appends_witness:
  "fst (getAppointments old_world) = Inr (JArr []) \<and>
   fst (addAppointment json_id1 old_world) = Inr () \<and>
   fst (getAppointments ((snd (addAppointment json_id1 old_world))\<lparr>now := 1800000000000, faults := [True]\<rparr>))
     = Inr (JArr [json_id1]) \<and>
   count_list [json_id1] json_id1 = 1"
proof -
  have g: "fst (getAppointments old_world) = Inr (JArr [])"
    by (simp add: getAppointments_def getItem_def getItem_storage_def AsyncStorage_getItem_def
          next_fault_def consume_fault_def old_world_def fresh_world_def text_truthy_def JSON_parse_def
          keys_distinct keys_distinct [symmetric])
  have a: "fst (addAppointment json_id1 old_world) = Inr ()"
    by (simp add: addAppointment_def getAppointments_def saveAppointments_def getItem_def
          getItem_storage_def setItem_cases AsyncStorage_getItem_def next_fault_def consume_fault_def
          old_world_def fresh_world_def text_truthy_def JSON_parse_def
          keys_distinct keys_distinct [symmetric])
  from addAppointment_appends [OF g a,
         of "(snd (addAppointment json_id1 old_world))\<lparr>now := 1800000000000, faults := [True]\<rparr>"]
  show ?thesis by (simp add: g a)
qed

end
